theory Spec2Isabelle
  imports Complex_Main "HOL-Library.Stream" "HOL-Library.AList"
begin

section \<open>Data model\<close>

text \<open>
  The JavaScript objects of the rules engine become records. Numbers that the code only
  ever uses as integers (model counts, die rolls, quality, defense, AP) are \<open>int\<close>;
  coordinates are \<open>real\<close>. A \<open>special\<close> object is a dictionary whose keys are
  created by the parser, so it is an association list in insertion order; its values are
  \<open>true\<close>, \<open>false\<close> or a parsed number.
\<close>

datatype jsval = JBool bool | JNum int

type_synonym jsobj = "(string \<times> jsval) list"

text \<open>\<open>obj?.key\<close> used as a condition: a missing key is \<open>undefined\<close>, which is falsy.\<close>

fun truthy :: "jsval option \<Rightarrow> bool" where
  "truthy None = False"
| "truthy (Some (JBool b)) = b"
| "truthy (Some (JNum n)) = (n \<noteq> 0)"

text \<open>The value a flag has in arithmetic and comparisons (\<open>true\<close> counts as 1).\<close>

fun toNumber :: "jsval \<Rightarrow> int" where
  "toNumber (JBool b) = (if b then 1 else 0)"
| "toNumber (JNum n) = n"

definition flag :: "jsobj \<Rightarrow> string \<Rightarrow> jsval option" where
  "flag obj key = map_of obj key"

record Weapon =
  amount :: int
  w_name :: string
  w_range :: int
  attacks :: int
  ap :: int
  w_special :: jsobj

record SubUnit =
  su_name :: string
  models :: int
  quality :: int
  defense :: int
  points :: int
  special :: jsobj
  weapons :: "Weapon list"
  su_keywords :: "string list"

record UnitGroup =
  g_name :: string
  subUnits :: "SubUnit list"





text \<open>
  \<open>rollDie()\<close> draws from the random source. The source of randomness is a stream of
  die values, read in the order the code rolls.
\<close>

type_synonym dice = "int stream"


section \<open>Attack sequence (gameRollAttackSequence)\<close>

subsection \<open>Attack parameters\<close>






subsection \<open>Roll to hit\<close>





subsection \<open>Blast\<close>


subsection \<open>Saves\<close>




subsection \<open>Wound packets and defensive mitigation\<close>






section \<open>Unit clusters\<close>

text \<open>Decimal digits of a number, as template strings print it.\<close>

fun showNat :: "nat \<Rightarrow> string" where
  "showNat n =
     (if n < 10 then [char_of (48 + n)]
      else showNat (n div 10) @ [char_of (48 + n mod 10)])"

record Model =
  m_x :: real
  m_y :: real
  m_id :: string

record SubUnitState =
  originalSubUnitData :: SubUnit
  s_id :: string
  currentModelsInSubUnit :: int
  woundsOnCurrentModelInSubUnit :: int
  woundsPerModel :: int
  effectiveWeapons :: "Weapon list"
  isHeroSubUnit :: bool

datatype side = Attackers | Defenders

text \<open>
  The cluster object. Its \<open>img\<close> field (an off-screen canvas) belongs to the renderer
  and is left out; \<open>isInCover\<close> is read by the shooting action and never assigned.
\<close>

record UnitCluster =
  c_id :: string
  c_name :: string
  c_side :: side
  c_type :: string
  bestRangeIn :: int
  cxIn :: real
  cyIn :: real
  originXIn :: real
  originYIn :: real
  wIn :: real
  hIn :: real
  c_models :: "Model list"
  unitGroupData :: UnitGroup
  activated :: bool
  shaken :: bool
  totalModels :: int
  currentModels :: int
  hasFoughtInMeleeThisRound :: bool
  subUnitStates :: "SubUnitState list"
  lastPerformedAction :: "string option"
  isInCover :: bool

definition DIA_IN :: real where
  "DIA_IN = 1.26"

subsection \<open>Weapon loadout of a depleted sub-unit (getUpdatedWeaponLoadoutForSubUnit)\<close>

text \<open>\<open>flag || 1\<close>: the flag's value when it is truthy, else 1.\<close>

definition flagOr1 :: "jsobj \<Rightarrow> string \<Rightarrow> int" where
  "flagOr1 obj key = (if truthy (flag obj key) then toNumber (the (flag obj key)) else 1)"

definition calculateWeaponGoodness :: "Weapon \<Rightarrow> real" where
  "calculateWeaponGoodness weapon =
     (let totalAttacks = attacks weapon * amount weapon;
          blast = flagOr1 (w_special weapon) ''blast'';
          deadly = flagOr1 (w_special weapon) ''deadly'';
          apMultiplier = 1 + real_of_int (ap weapon) * 0.25
      in real_of_int (totalAttacks * blast * deadly) * apMultiplier)"

text \<open>The single copies of the original weapons, each with its goodness.\<close>

definition allIndividualWeapons :: "Weapon list \<Rightarrow> (Weapon \<times> real) list" where
  "allIndividualWeapons originalWeapons =
     concat (map (\<lambda>spec. replicate (nat (amount spec))
                    (spec\<lparr>amount := 1\<rparr>, calculateWeaponGoodness (spec\<lparr>amount := 1\<rparr>)))
                 originalWeapons)"

text \<open>
  Dealing the sorted copies out to the virtual models in turn: copy number \<open>index\<close>
  goes to slot \<open>index mod originalModels\<close>. A slot is its weapons and their goodness.
\<close>

fun dealOut ::
  "nat \<Rightarrow> nat \<Rightarrow> (Weapon \<times> real) list \<Rightarrow> ((Weapon \<times> real) list \<times> real) list
     \<Rightarrow> ((Weapon \<times> real) list \<times> real) list" where
  "dealOut originalModels index [] virtualLoadouts = virtualLoadouts"
| "dealOut originalModels index (w # ws) virtualLoadouts =
     (let modelIdx = index mod originalModels;
          slot = virtualLoadouts ! modelIdx
      in dealOut originalModels (Suc index) ws
           (virtualLoadouts[modelIdx := (fst slot @ [w], snd slot + snd w)]))"

text \<open>
  Merging equal weapons: the map is keyed by name, range, attacks, AP and the special
  flags, keeps the order in which keys first appear, and counts the copies.
\<close>

definition sameWeaponKey :: "Weapon \<Rightarrow> Weapon \<Rightarrow> bool" where
  "sameWeaponKey a b =
     (w_name a = w_name b \<and> w_range a = w_range b \<and> attacks a = attacks b
      \<and> ap a = ap b \<and> w_special a = w_special b)"

fun countWeapon :: "Weapon \<Rightarrow> (Weapon \<times> int) list \<Rightarrow> (Weapon \<times> int) list" where
  "countWeapon w [] = [(w, 1)]"
| "countWeapon w ((template, n) # rest) =
     (if sameWeaponKey w template then (template, n + 1) # rest
      else (template, n) # countWeapon w rest)"

definition mergeWeapons :: "Weapon list \<Rightarrow> Weapon list" where
  "mergeWeapons finalWeapons =
     map (\<lambda>(template, n). template\<lparr>amount := n\<rparr>)
         (foldl (\<lambda>weaponMap w. countWeapon w weaponMap) [] finalWeapons)"

definition getUpdatedWeaponLoadoutForSubUnit :: "SubUnitState \<Rightarrow> Weapon list" where
  "getUpdatedWeaponLoadoutForSubUnit subUnitState =
     (let current = currentModelsInSubUnit subUnitState;
          originalModels = models (originalSubUnitData subUnitState);
          originalWeapons = weapons (originalSubUnitData subUnitState)
      in if current \<le> 0 then []
         else if current \<ge> originalModels then originalWeapons
         else
           (let sorted = sort_key (\<lambda>w. - snd w) (allIndividualWeapons originalWeapons);
                virtualLoadouts = dealOut (nat originalModels) 0 sorted
                                    (replicate (nat originalModels) ([], 0));
                keptLoadouts = drop (nat (originalModels - current))
                                 (sort_key snd virtualLoadouts)
            in mergeWeapons (map fst (concat (map fst keptLoadouts)))))"

subsection \<open>Footprint and model grid (updateClusterCircles)\<close>

definition gridModels :: "string \<Rightarrow> real \<Rightarrow> real \<Rightarrow> int \<Rightarrow> nat \<Rightarrow> Model list" where
  "gridModels clusterId originX originY cols numModels =
     map (\<lambda>i. \<lparr>m_x = originX + real_of_int (int i mod cols) * DIA_IN + DIA_IN / 2,
               m_y = originY + real_of_int (int i div cols) * DIA_IN + DIA_IN / 2,
               m_id = clusterId @ ''-model-'' @ showNat i\<rparr>)
         [0..<numModels]"

definition updateClusterCircles :: "UnitCluster \<Rightarrow> UnitCluster" where
  "updateClusterCircles cluster =
     (let numModels = currentModels cluster
      in if numModels \<le> 0 then cluster
         else
           (let cols = \<lceil>sqrt (real_of_int numModels)\<rceil>
            in cluster\<lparr>wIn := real_of_int cols * DIA_IN,
                       hIn := real_of_int \<lceil>real_of_int numModels / real_of_int cols\<rceil> * DIA_IN,
                       c_models := gridModels (c_id cluster) (originXIn cluster)
                                     (originYIn cluster) cols (nat numModels)\<rparr>))"

section \<open>Wound application (applyWoundsToCluster)\<close>

text \<open>
  The allocation order is a list of references to the cluster's own sub-unit states:
  positions in \<open>subUnitStates\<close>, the non-hero sub-units with models left first, then
  the hero ones, each group sorted by wounds per model (the sort is stable).
\<close>

definition allocation :: "SubUnitState list \<Rightarrow> nat list" where
  "allocation states =
     sort_key (\<lambda>i. woundsPerModel (states ! i))
       (filter (\<lambda>i. \<not> isHeroSubUnit (states ! i) \<and> currentModelsInSubUnit (states ! i) > 0)
               [0..<length states])
     @ sort_key (\<lambda>i. woundsPerModel (states ! i))
       (filter (\<lambda>i. isHeroSubUnit (states ! i) \<and> currentModelsInSubUnit (states ! i) > 0)
               [0..<length states])"

text \<open>One packet on the sub-unit state it reaches: the state after, and whether a model died.\<close>

definition woundSubUnit :: "int \<Rightarrow> SubUnitState \<Rightarrow> SubUnitState \<times> bool" where
  "woundSubUnit packet sus =
     (let remainingHP = woundsPerModel sus - woundsOnCurrentModelInSubUnit sus;
          killed = (packet \<ge> remainingHP);
          sus1 = (if killed
                  then sus\<lparr>currentModelsInSubUnit := currentModelsInSubUnit sus - 1,
                           woundsOnCurrentModelInSubUnit := 0\<rparr>
                  else sus\<lparr>woundsOnCurrentModelInSubUnit :=
                             woundsOnCurrentModelInSubUnit sus + packet\<rparr>);
          sus2 = (if models (originalSubUnitData sus1) > 1
                     \<and> currentModelsInSubUnit sus1 < models (originalSubUnitData sus1)
                  then sus1\<lparr>effectiveWeapons := getUpdatedWeaponLoadoutForSubUnit sus1\<rparr>
                  else sus1)
      in (sus2, killed))"

text \<open>
  The inner loop for one packet: the first sub-unit of the allocation that still has
  models takes it. The accumulator is the sub-unit states, the cluster's
  \<open>currentModels\<close> and \<open>modelsKilled\<close>.
\<close>

fun applyPacket ::
  "int \<Rightarrow> nat list \<Rightarrow> SubUnitState list \<times> int \<times> int \<Rightarrow> SubUnitState list \<times> int \<times> int" where
  "applyPacket packet [] acc = acc"
| "applyPacket packet (i # rest) (states, current, modelsKilled) =
     (if currentModelsInSubUnit (states ! i) \<le> 0
      then applyPacket packet rest (states, current, modelsKilled)
      else (case woundSubUnit packet (states ! i) of
              (sus, killed) \<Rightarrow>
                (states[i := sus],
                 if killed then current - 1 else current,
                 if killed then modelsKilled + 1 else modelsKilled)))"

text \<open>
  \<open>packets\<close> is an array of packets, or a number \<open>n\<close> that stands for \<open>n\<close> packets of 1.
\<close>

datatype packets = PacketArray "int list" | PacketCount int

text \<open>
  \<open>Array(n)\<close> raises a RangeError when \<open>n\<close> is negative. (The engine's upper limit
  on array lengths is beyond any count of wounds and is not part of the model.)
\<close>

datatype jsError = RangeError

fun woundPacketsOf :: "packets \<Rightarrow> jsError + int list" where
  "woundPacketsOf (PacketArray ps) = Inr ps"
| "woundPacketsOf (PacketCount n) =
     (if n < 0 then Inl RangeError else Inr (replicate (nat n) 1))"

definition applyPackets :: "UnitCluster \<Rightarrow> int list \<Rightarrow> UnitCluster \<times> int" where
  "applyPackets targetCluster ps =
     (let alloc = allocation (subUnitStates targetCluster)
      in case foldl (\<lambda>acc packet. applyPacket packet alloc acc)
                    (subUnitStates targetCluster, currentModels targetCluster, 0) ps of
           (states, current, modelsKilled) \<Rightarrow>
             (let cluster1 = targetCluster\<lparr>subUnitStates := states,
                                            currentModels := max 0 current\<rparr>
              in (if currentModels cluster1 > 0 then updateClusterCircles cluster1
                  else cluster1,
                  modelsKilled)))"

definition applyWoundsToCluster ::
  "UnitCluster \<Rightarrow> packets \<Rightarrow> jsError + UnitCluster \<times> int" where
  "applyWoundsToCluster targetCluster pkts =
     (case woundPacketsOf pkts of
        Inl e \<Rightarrow> Inl e
      | Inr ps \<Rightarrow> Inr (applyPackets targetCluster ps))"

text \<open>The invariant of the data model: the cluster's count is the sum of its sub-units'.\<close>

definition modelCountInvariant :: "UnitCluster \<Rightarrow> bool" where
  "modelCountInvariant cluster =
     (currentModels cluster
        = sum_list (map currentModelsInSubUnit (subUnitStates cluster)))"

section \<open>Battlefield state\<close>

text \<open>
  Cluster objects are shared: the rosters of \<open>clusterCache\<close>, the active unit and the
  arguments of the rule functions all refer to the same objects, and the functions mutate
  them in place. So the clusters live in a store, addressed by references, and the
  rosters are lists of references. The global variables of the turn engine and the
  random source complete the state.
\<close>

type_synonym ref = nat

record Objective =
  o_x :: real
  o_y :: real
  controller :: "side option"

record GameState =
  clusters :: "ref \<Rightarrow> UnitCluster"
  attackers :: "ref list"
  defenders :: "ref list"
  objectives :: "Objective list"
  currentTurn :: side
  currentRound :: int
  playerWhoFinishedLastRoundFirst :: "side option"
  playerWhoStartedCurrentRound :: side
  currentActiveUnit :: "ref option"
  rng :: dice

definition sideCache :: "GameState \<Rightarrow> side \<Rightarrow> ref list" where
  "sideCache st s = (case s of Attackers \<Rightarrow> attackers st | Defenders \<Rightarrow> defenders st)"

definition otherSide :: "side \<Rightarrow> side" where
  "otherSide s = (if s = Attackers then Defenders else Attackers)"

definition getAISideCache :: "GameState \<Rightarrow> ref list" where
  "getAISideCache st = sideCache st (currentTurn st)"

definition getEnemySideCache :: "GameState \<Rightarrow> ref list" where
  "getEnemySideCache st =
     (if currentTurn st = Attackers then defenders st else attackers st)"

definition updateCluster :: "ref \<Rightarrow> (UnitCluster \<Rightarrow> UnitCluster) \<Rightarrow> GameState \<Rightarrow> GameState" where
  "updateCluster r f st = st\<lparr>clusters := (clusters st)(r := f (clusters st r))\<rparr>"

definition rollDie :: "GameState \<Rightarrow> int \<times> GameState" where
  "rollDie st = (shd (rng st), st\<lparr>rng := stl (rng st)\<rparr>)"

subsection \<open>Geometry\<close>

definition hypot :: "real \<Rightarrow> real \<Rightarrow> real" where
  "hypot a b = sqrt (a\<^sup>2 + b\<^sup>2)"

definition getEffectiveRadius :: "UnitCluster \<Rightarrow> real" where
  "getEffectiveRadius cluster =
     (if wIn cluster = 0 \<or> hIn cluster = 0 then DIA_IN / 2
      else max (wIn cluster) (hIn cluster) / 2)"

definition areClustersColliding :: "UnitCluster \<Rightarrow> UnitCluster \<Rightarrow> real \<Rightarrow> bool" where
  "areClustersColliding cluster1 cluster2 minSeparationIn =
     (hypot (cxIn cluster1 - cxIn cluster2) (cyIn cluster1 - cyIn cluster2)
        < getEffectiveRadius cluster1 + getEffectiveRadius cluster2 + minSeparationIn)"

definition isUnitNearPoint :: "UnitCluster \<Rightarrow> real \<Rightarrow> real \<Rightarrow> real \<Rightarrow> bool" where
  "isUnitNearPoint unitCluster px py distanceInches =
     (if c_models unitCluster = [] then False
      else list_ex (\<lambda>model. hypot (m_x model - px) (m_y model - py) \<le> distanceInches)
                   (c_models unitCluster))"

subsection \<open>Objective control at the end of a turn (updateObjectiveControlAtTurnEnd)\<close>

text \<open>Whether the roster of a side has a unit that is not shaken within 3 inches.\<close>

definition unitsNear :: "GameState \<Rightarrow> side \<Rightarrow> Objective \<Rightarrow> bool" where
  "unitsNear st s obj =
     (filter (\<lambda>u. \<not> shaken (clusters st u)
                   \<and> isUnitNearPoint (clusters st u) (o_x obj) (o_y obj) 3)
             (sideCache st s) \<noteq> [])"

definition newController :: "GameState \<Rightarrow> Objective \<Rightarrow> side option" where
  "newController st obj =
     (let attackerUnitsNear = unitsNear st Attackers obj;
          defenderUnitsNear = unitsNear st Defenders obj
      in if attackerUnitsNear \<and> \<not> defenderUnitsNear
         then (if controller obj \<noteq> Some Attackers then Some Attackers else controller obj)
         else if defenderUnitsNear \<and> \<not> attackerUnitsNear
         then (if controller obj \<noteq> Some Defenders then Some Defenders else controller obj)
         else if attackerUnitsNear \<and> defenderUnitsNear
         then (if controller obj \<noteq> None then None else controller obj)
         else controller obj)"

definition updateObjectiveControlAtTurnEnd :: "GameState \<Rightarrow> GameState" where
  "updateObjectiveControlAtTurnEnd st =
     st\<lparr>objectives := map (\<lambda>obj. obj\<lparr>controller := newController st obj\<rparr>)
                           (objectives st)\<rparr>"

subsection \<open>End of an activation (finalizeAITurn)\<close>

text \<open>The two \<open>forEach\<close> loops that start a new round, over the objects of a roster.\<close>

definition resetFlagsOf :: "(ref \<Rightarrow> UnitCluster) \<Rightarrow> ref \<Rightarrow> (ref \<Rightarrow> UnitCluster)" where
  "resetFlagsOf store u =
     store(u := (store u)\<lparr>activated := False, hasFoughtInMeleeThisRound := False\<rparr>)"

definition resetRoundFlags :: "ref list \<Rightarrow> (ref \<Rightarrow> UnitCluster) \<Rightarrow> (ref \<Rightarrow> UnitCluster)" where
  "resetRoundFlags roster store = foldl resetFlagsOf store roster"

definition finalizeAITurn :: "GameState \<Rightarrow> GameState" where
  "finalizeAITurn st0 =
     (let st = updateObjectiveControlAtTurnEnd st0;
          finishedPlayer = currentTurn st;
          currentDone = list_all (\<lambda>u. activated (clusters st u)) (getAISideCache st);
          opponentDone = list_all (\<lambda>u. activated (clusters st u)) (getEnemySideCache st);
          st1 =
            (if currentDone
             then
               (let sta = (if playerWhoFinishedLastRoundFirst st = None
                           then st\<lparr>playerWhoFinishedLastRoundFirst := Some finishedPlayer\<rparr>
                           else st)
                in if opponentDone
                   then
                     (let stb = sta\<lparr>currentRound := currentRound sta + 1,
                                      clusters := resetRoundFlags (defenders sta)
                                                    (resetRoundFlags (attackers sta)
                                                       (clusters sta))\<rparr>;
                          nextTurn = (case playerWhoFinishedLastRoundFirst stb of
                                        Some p \<Rightarrow> p
                                      | None \<Rightarrow> playerWhoStartedCurrentRound stb)
                      in stb\<lparr>currentTurn := nextTurn,
                              playerWhoStartedCurrentRound := nextTurn,
                              playerWhoFinishedLastRoundFirst := None\<rparr>)
                   else sta\<lparr>currentTurn := otherSide finishedPlayer\<rparr>)
             else st\<lparr>currentTurn := otherSide finishedPlayer\<rparr>)
      in st1\<lparr>currentActiveUnit := None\<rparr>)"

section \<open>Morale (performMoraleTest)\<close>

text \<open>
  Removing a cluster from the rosters: the side is the attackers if some attacker has the
  cluster's id, else the defenders, and that roster is filtered by id.
\<close>

definition sideOfId :: "GameState \<Rightarrow> string \<Rightarrow> side" where
  "sideOfId st cid =
     (if list_ex (\<lambda>c. c_id (clusters st c) = cid) (attackers st)
      then Attackers else Defenders)"

definition removeFromRoster :: "string \<Rightarrow> GameState \<Rightarrow> GameState" where
  "removeFromRoster cid st =
     (case sideOfId st cid of
        Attackers \<Rightarrow>
          st\<lparr>attackers := filter (\<lambda>c. c_id (clusters st c) \<noteq> cid) (attackers st)\<rparr>
      | Defenders \<Rightarrow>
          st\<lparr>defenders := filter (\<lambda>c. c_id (clusters st c) \<noteq> cid) (defenders st)\<rparr>)"

definition routCluster :: "ref \<Rightarrow> GameState \<Rightarrow> GameState" where
  "routCluster u st =
     updateCluster u (\<lambda>c. c\<lparr>currentModels := 0\<rparr>)
       (removeFromRoster (c_id (clusters st u)) st)"

definition moralePassed :: "int \<Rightarrow> int \<Rightarrow> bool" where
  "moralePassed r qualityToTest = (r = 6 \<or> (r > 1 \<and> r \<ge> qualityToTest))"

definition qualityToTest :: "UnitCluster \<Rightarrow> int" where
  "qualityToTest unitCluster =
     (case subUnits (unitGroupData unitCluster) of [] \<Rightarrow> 6 | su # _ \<Rightarrow> quality su)"

text \<open>
  The first step: a shaken unit fails without a roll and is taken off its roster with its
  model count zeroed; any other unit rolls against its quality. The result says whether
  the test failed.
\<close>

definition initialMoraleTest :: "ref \<Rightarrow> GameState \<Rightarrow> bool \<times> GameState" where
  "initialMoraleTest u st =
     (if shaken (clusters st u) then (True, routCluster u st)
      else (case rollDie st of
              (r, st1) \<Rightarrow> (\<not> moralePassed r (qualityToTest (clusters st u)), st1)))"

definition unitIsFearless :: "UnitCluster \<Rightarrow> bool" where
  "unitIsFearless unitCluster =
     (let fearlessModelsCount =
            sum_list (map (\<lambda>su. if truthy (flag (special su) ''fearless'') then models su else 0)
                          (subUnits (unitGroupData unitCluster)))
      in real_of_int fearlessModelsCount > real_of_int (totalModels unitCluster) / 2)"

text \<open>The Fearless step of a failed test: whether the test still counts as failed.\<close>

definition fearlessStep :: "ref \<Rightarrow> GameState \<Rightarrow> bool \<times> GameState" where
  "fearlessStep u st =
     (if unitIsFearless (clusters st u)
      then (case rollDie st of (fearlessRoll, st1) \<Rightarrow> (\<not> fearlessRoll \<ge> 4, st1))
      else (True, st))"

definition unitHasHoldTheLine :: "UnitCluster \<Rightarrow> bool" where
  "unitHasHoldTheLine unitCluster =
     (let active = filter (\<lambda>sus. currentModelsInSubUnit sus > 0) (subUnitStates unitCluster);
          hasHoldTheLine =
            list_ex (\<lambda>sus. truthy (flag (special (originalSubUnitData sus)) ''holdTheLine''))
                    active;
          activeRobotSubUnitsCount =
            length (filter (\<lambda>sus. truthy (flag (special (originalSubUnitData sus)) ''robot''))
                           active);
          totalActiveSubUnits = length active
      in hasHoldTheLine
         \<or> (totalActiveSubUnits > 0
             \<and> real activeRobotSubUnitsCount > real totalActiveSubUnits / 2))"

definition woundsToDestroyUnit :: "UnitCluster \<Rightarrow> int" where
  "woundsToDestroyUnit unitCluster =
     sum_list (map (\<lambda>sus. if currentModelsInSubUnit sus > 0
                         then (woundsPerModel sus - woundsOnCurrentModelInSubUnit sus)
                              + (if currentModelsInSubUnit sus > 1
                                 then (currentModelsInSubUnit sus - 1) * woundsPerModel sus
                                 else 0)
                         else 0)
                   (subUnitStates unitCluster))"

text \<open>The Hold the Line dice: how many of \<open>n\<close> rolls are 3 or less.\<close>

fun rollHoldTheLine :: "nat \<Rightarrow> GameState \<Rightarrow> int \<times> GameState" where
  "rollHoldTheLine 0 st = (0, st)"
| "rollHoldTheLine (Suc n) st =
     (case rollDie st of
        (htlRoll, st1) \<Rightarrow>
          (case rollHoldTheLine n st1 of
             (damage, st2) \<Rightarrow> ((if htlRoll \<le> 3 then 1 else 0) + damage, st2)))"

text \<open>
  The Hold the Line / Robot step, entered with the verdict so far: a unit that has the
  rule passes after all and takes the rolled wounds at once.
\<close>

definition holdTheLineStep :: "ref \<Rightarrow> bool \<Rightarrow> GameState \<Rightarrow> jsError + bool \<times> GameState" where
  "holdTheLineStep u failure st =
     (if failure \<and> unitHasHoldTheLine (clusters st u)
      then (case rollHoldTheLine (nat (woundsToDestroyUnit (clusters st u))) st of
              (damageFromHtL, st1) \<Rightarrow>
                if damageFromHtL > 0
                then (case applyWoundsToCluster (clusters st1 u) (PacketCount damageFromHtL) of
                        Inl e \<Rightarrow> Inl e
                      | Inr (cluster, modelsKilled) \<Rightarrow>
                          Inr (False, updateCluster u (\<lambda>_. cluster) st1))
                else Inr (False, st1))
      else Inr (failure, st))"

definition isHalfStrengthOrLess :: "UnitCluster \<Rightarrow> bool" where
  "isHalfStrengthOrLess unitCluster =
     (if real_of_int (currentModels unitCluster) \<le> real_of_int (totalModels unitCluster) / 2
      then True
      else if currentModels unitCluster = 1
      then (case find (\<lambda>sus. currentModelsInSubUnit sus > 0) (subUnitStates unitCluster) of
              None \<Rightarrow> False
            | Some sus \<Rightarrow>
                real_of_int (woundsOnCurrentModelInSubUnit sus)
                  \<ge> real_of_int (woundsPerModel sus) / 2)
      else False)"

text \<open>The outcome of a test that stays failed.\<close>

definition moraleOutcome :: "ref \<Rightarrow> bool \<Rightarrow> GameState \<Rightarrow> GameState" where
  "moraleOutcome u isMeleeTest st =
     (if isMeleeTest
      then (if isHalfStrengthOrLess (clusters st u) then routCluster u st
            else updateCluster u (\<lambda>c. c\<lparr>shaken := True\<rparr>) st)
      else updateCluster u (\<lambda>c. c\<lparr>shaken := True\<rparr>) st)"

definition performMoraleTest :: "ref \<Rightarrow> bool \<Rightarrow> GameState \<Rightarrow> jsError + GameState" where
  "performMoraleTest u isMeleeTest st =
     (if currentModels (clusters st u) \<le> 0 then Inr st
      else (case initialMoraleTest u st of
              (testFailedInitially, st1) \<Rightarrow>
                if \<not> testFailedInitially then Inr st1
                else (case fearlessStep u st1 of
                        (stillFailed, st2) \<Rightarrow>
                          (case holdTheLineStep u stillFailed st2 of
                             Inl e \<Rightarrow> Inl e
                           | Inr (finalTestOutcomeIsFailure, st3) \<Rightarrow>
                               Inr (if finalTestOutcomeIsFailure
                                    then moraleOutcome u isMeleeTest st3 else st3)))))"

section \<open>Shooting and melee (aiExecuteShootAction, aiExecuteMeleeAction)\<close>

subsection \<open>What both actions share\<close>







subsection \<open>Shooting\<close>







subsection \<open>Melee\<close>









section \<open>Movement\<close>

text \<open>Moving every model of a cluster by a vector, as the \<open>forEach\<close> loops do.\<close>

definition shiftModels :: "real \<Rightarrow> real \<Rightarrow> Model list \<Rightarrow> Model list" where
  "shiftModels moveX moveY ms = map (\<lambda>model. model\<lparr>m_x := m_x model + moveX,
                                                   m_y := m_y model + moveY\<rparr>) ms"

subsection \<open>Scout move at deployment (the scout block of deployUnit)\<close>

text \<open>
  \<open>objectives.sort(by distance to the new cluster)[0]\<close>: the sort is in place, so the
  global list is reordered, and the nearest objective is its first element, if any.
\<close>

definition sortObjectivesByDistance :: "UnitCluster \<Rightarrow> Objective list \<Rightarrow> Objective list" where
  "sortObjectivesByDistance newCluster objs =
     sort_key (\<lambda>obj. hypot (o_x obj - cxIn newCluster) (o_y obj - cyIn newCluster)) objs"

definition scoutMove :: "UnitCluster \<Rightarrow> Objective \<Rightarrow> UnitCluster" where
  "scoutMove newCluster nearestObj =
     (let dx = o_x nearestObj - cxIn newCluster;
          dy = o_y nearestObj - cyIn newCluster;
          dist = hypot dx dy;
          moveAmount = min 12 dist;
          moveX = (if dist > 0 then (dx / dist) * moveAmount else 0);
          moveY = (if dist > 0 then (dy / dist) * moveAmount else 0)
      in newCluster\<lparr>cxIn := cxIn newCluster + moveX,
                    cyIn := cyIn newCluster + moveY,
                    originXIn := originXIn newCluster + moveX,
                    originYIn := originYIn newCluster + moveY,
                    c_models := shiftModels moveX moveY (c_models newCluster)\<rparr>)"

definition deployScoutMove :: "ref \<Rightarrow> GameState \<Rightarrow> GameState" where
  "deployScoutMove u st =
     (let sorted = sortObjectivesByDistance (clusters st u) (objectives st);
          st1 = st\<lparr>objectives := sorted\<rparr>
      in case sorted of
           [] \<Rightarrow> st1
         | nearestObj # _ \<Rightarrow> updateCluster u (\<lambda>c. scoutMove c nearestObj) st1)"

subsection \<open>Animated movement (animateUnitMovement)\<close>

text \<open>
  The animation runs one \<open>step\<close> per frame the browser delivers; the frames' timestamps
  are an input. Each step moves the centre, the origin and every model by the same
  amount; the step that completes the distance then sets all of them from the positions
  captured at the start. The result says whether the animation has completed (and so
  called its callback) within the frames given.
\<close>

definition translateCluster :: "real \<Rightarrow> real \<Rightarrow> UnitCluster \<Rightarrow> UnitCluster" where
  "translateCluster moveX moveY unitCluster =
     unitCluster\<lparr>cxIn := cxIn unitCluster + moveX,
                  cyIn := cyIn unitCluster + moveY,
                  originXIn := originXIn unitCluster + moveX,
                  originYIn := originYIn unitCluster + moveY,
                  c_models := shiftModels moveX moveY (c_models unitCluster)\<rparr>"

definition snapToFinal :: "UnitCluster \<Rightarrow> real \<Rightarrow> real \<Rightarrow> UnitCluster \<Rightarrow> UnitCluster" where
  "snapToFinal original finalMoveX finalMoveY unitCluster =
     unitCluster\<lparr>cxIn := cxIn original + finalMoveX,
                  cyIn := cyIn original + finalMoveY,
                  originXIn := originXIn original + finalMoveX,
                  originYIn := originYIn original + finalMoveY,
                  c_models := map (\<lambda>(model, originalPosition).
                                     model\<lparr>m_x := m_x originalPosition + finalMoveX,
                                           m_y := m_y originalPosition + finalMoveY\<rparr>)
                                  (zip (c_models unitCluster) (c_models original))\<rparr>"

fun animationSteps ::
  "UnitCluster \<Rightarrow> real \<Rightarrow> real \<Rightarrow> real \<Rightarrow> real list
     \<Rightarrow> UnitCluster \<times> real \<times> real option \<Rightarrow> UnitCluster \<times> bool" where
  "animationSteps original dX dY distanceToMoveIn [] (unitCluster, movedSoFarIn, lastTimestamp) =
     (unitCluster, False)"
| "animationSteps original dX dY distanceToMoveIn (timestamp # frames)
       (unitCluster, movedSoFarIn, lastTimestamp) =
     (let last = (case lastTimestamp of
                    None \<Rightarrow> timestamp
                  | Some t \<Rightarrow> if t = 0 then timestamp else t);
          deltaTimeMs = timestamp - last;
          moveThisFrameIn = min (deltaTimeMs * 0.012) (distanceToMoveIn - movedSoFarIn);
          moved = movedSoFarIn + moveThisFrameIn;
          cluster1 = translateCluster (dX * moveThisFrameIn) (dY * moveThisFrameIn) unitCluster
      in if moved < distanceToMoveIn
         then animationSteps original dX dY distanceToMoveIn frames
                (cluster1, moved, Some timestamp)
         else (snapToFinal original (dX * distanceToMoveIn) (dY * distanceToMoveIn) cluster1,
               True))"

definition animateUnitMovement ::
  "UnitCluster \<Rightarrow> real \<Rightarrow> real \<Rightarrow> real \<Rightarrow> real list \<Rightarrow> UnitCluster \<times> bool" where
  "animateUnitMovement unitCluster targetX targetY distanceToMoveIn frames =
     (let dX = targetX - cxIn unitCluster;
          dY = targetY - cyIn unitCluster;
          totalDistToTarget = hypot dX dY
      in if totalDistToTarget < 0.01 \<or> distanceToMoveIn \<le> 0 then (unitCluster, True)
         else animationSteps unitCluster (dX / totalDistToTarget) (dY / totalDistToTarget)
                distanceToMoveIn frames (unitCluster, 0, None))"

subsection \<open>Push-back after a charge (resolvePostChargeSeparation)\<close>

definition resolvePostChargeSeparation :: "UnitCluster \<Rightarrow> UnitCluster \<Rightarrow> UnitCluster" where
  "resolvePostChargeSeparation chargerCluster chargedTargetCluster =
     (if areClustersColliding chargerCluster chargedTargetCluster (- 0.1)
      then
        (let dx = cxIn chargedTargetCluster - cxIn chargerCluster;
             dy = cyIn chargedTargetCluster - cyIn chargerCluster;
             dist = (if hypot dx dy = 0 then 1 else hypot dx dy);
             pushBackDirX = dx / dist;
             pushBackDirY = dy / dist
         in chargedTargetCluster
              \<lparr>cxIn := cxIn chargedTargetCluster + pushBackDirX * 1.0,
               cyIn := cyIn chargedTargetCluster + pushBackDirY * 1.0,
               originXIn := originXIn chargedTargetCluster + pushBackDirX * 1.0,
               originYIn := originYIn chargedTargetCluster + pushBackDirY * 1.0\<rparr>)
      else chargedTargetCluster)"

text \<open>
  What the data model asks of a movement from \<open>before\<close> to \<open>after\<close>: the models have
  moved by the vector the centre has moved by.
\<close>

definition movedTogether :: "UnitCluster \<Rightarrow> UnitCluster \<Rightarrow> bool" where
  "movedTogether before after =
     (map (\<lambda>model. (m_x model, m_y model)) (c_models after)
        = map (\<lambda>model. (m_x model + (cxIn after - cxIn before),
                          m_y model + (cyIn after - cyIn before)))
              (c_models before))"

section \<open>Army list parser\<close>

subsection \<open>Regular expressions\<close>

text \<open>
  The parser is written with regular expressions. What it uses of them is modelled here:
  literals, the classes \<open>.\<close>, \<open>\d\<close>, \<open>\s\<close>, \<open>\w\<close> and bracketed sets,
  sequences, greedy and lazy repetition, the greedy option, capture groups, the anchors,
  and the flag \<open>i\<close>. Matching is by backtracking: the matcher lists every way a pattern
  can match at a position, in the order of priority of the language (a greedy repetition
  tries more iterations first, a lazy one fewer), and the first way that the rest of the
  pattern accepts is the match. Strings are ASCII.
\<close>

datatype atom = Lit char | Dot | Digit | Space | Word | Rng char char
  | Set "atom list" | NotSet "atom list"

definition charCode :: "char \<Rightarrow> nat" where
  "charCode c = of_char c"

definition isDigitChar :: "char \<Rightarrow> bool" where
  "isDigitChar c = (48 \<le> charCode c \<and> charCode c \<le> 57)"

definition isSpaceChar :: "char \<Rightarrow> bool" where
  "isSpaceChar c = (charCode c = 32 \<or> (9 \<le> charCode c \<and> charCode c \<le> 13))"

definition isUpperChar :: "char \<Rightarrow> bool" where
  "isUpperChar c = (65 \<le> charCode c \<and> charCode c \<le> 90)"

definition isLowerChar :: "char \<Rightarrow> bool" where
  "isLowerChar c = (97 \<le> charCode c \<and> charCode c \<le> 122)"

definition isWordChar :: "char \<Rightarrow> bool" where
  "isWordChar c = (isDigitChar c \<or> isUpperChar c \<or> isLowerChar c \<or> c = CHR ''_'')"

definition toLowerChar :: "char \<Rightarrow> char" where
  "toLowerChar c = (if isUpperChar c then char_of (charCode c + 32) else c)"

definition toUpperChar :: "char \<Rightarrow> char" where
  "toUpperChar c = (if isLowerChar c then char_of (charCode c - 32) else c)"

fun atomHas :: "atom \<Rightarrow> char \<Rightarrow> bool" where
  "atomHas (Lit l) c = (c = l)"
| "atomHas Dot c = (c \<noteq> CHR 0x0A \<and> c \<noteq> CHR 0x0D)"
| "atomHas Digit c = isDigitChar c"
| "atomHas Space c = isSpaceChar c"
| "atomHas Word c = isWordChar c"
| "atomHas (Rng lo hi) c = (charCode lo \<le> charCode c \<and> charCode c \<le> charCode hi)"
| "atomHas (Set as) c = list_ex (\<lambda>a. atomHas a c) as"
| "atomHas (NotSet as) c = (\<not> list_ex (\<lambda>a. atomHas a c) as)"

text \<open>With the flag \<open>i\<close> a character matches if it does in either case.\<close>

definition atomMatches :: "bool \<Rightarrow> atom \<Rightarrow> char \<Rightarrow> bool" where
  "atomMatches ignoreCase a c =
     (if ignoreCase
      then (case a of
              NotSet as \<Rightarrow> \<not> (atomHas (Set as) c \<or> atomHas (Set as) (toLowerChar c)
                                \<or> atomHas (Set as) (toUpperChar c))
            | _ \<Rightarrow> atomHas a c \<or> atomHas a (toLowerChar c) \<or> atomHas a (toUpperChar c))
      else atomHas a c)"

datatype re = Atom atom | Eps | Bol | Eol | Cat re re | Star bool re | Opt re | Group nat re

text \<open>\<open>a+\<close> and \<open>a+?\<close> are \<open>a\<close> followed by \<open>a*\<close> and \<open>a*?\<close>.\<close>

definition Plus :: "bool \<Rightarrow> re \<Rightarrow> re" where
  "Plus greedy a = Cat a (Star greedy a)"

fun cats :: "re list \<Rightarrow> re" where
  "cats [] = Eps"
| "cats [a] = a"
| "cats (a # as) = Cat a (cats as)"

definition lits :: "string \<Rightarrow> re" where
  "lits str = cats (map (\<lambda>c. Atom (Lit c)) str)"

text \<open>
  A matcher state is the index reached, the input from there on, and the captures so
  far.
\<close>

type_synonym captures = "(nat \<times> string) list"

type_synonym mstate = "nat \<times> string \<times> captures"

text \<open>
  Repetition of a matcher \<open>f\<close>: an iteration counts only if it consumes input, so
  the input left bounds the number of iterations.
\<close>

fun repeat :: "(mstate \<Rightarrow> mstate list) \<Rightarrow> bool \<Rightarrow> nat \<Rightarrow> mstate \<Rightarrow> mstate list" where
  "repeat f greedy 0 s = [s]"
| "repeat f greedy (Suc n) s =
     (let more = concat (map (\<lambda>s'. if length (fst (snd s')) < length (fst (snd s))
                                     then repeat f greedy n s' else [])
                             (f s))
      in if greedy then more @ [s] else s # more)"

primrec matches :: "re \<Rightarrow> bool \<Rightarrow> mstate \<Rightarrow> mstate list" where
  "matches (Atom a) ignoreCase s =
     (case s of
        (i, [], caps) \<Rightarrow> []
      | (i, c # cs, caps) \<Rightarrow> if atomMatches ignoreCase a c then [(i + 1, cs, caps)] else [])"
| "matches Eps ignoreCase s = [s]"
| "matches Bol ignoreCase s = (if fst s = 0 then [s] else [])"
| "matches Eol ignoreCase s = (if fst (snd s) = [] then [s] else [])"
| "matches (Cat a b) ignoreCase s = concat (map (matches b ignoreCase) (matches a ignoreCase s))"
| "matches (Star greedy a) ignoreCase s =
     repeat (matches a ignoreCase) greedy (length (fst (snd s))) s"
| "matches (Opt a) ignoreCase s = matches a ignoreCase s @ [s]"
| "matches (Group n a) ignoreCase s =
     map (\<lambda>(i, rest, caps).
            (i, rest, AList.update n (take (i - fst s) (fst (snd s))) caps))
         (matches a ignoreCase s)"

text \<open>
  \<open>str.match(re)\<close> for a pattern without the flag \<open>g\<close>: the first match, searching
  from the leftmost start position on. The result is the captures, the whole match under
  number 0; a group that took no part has no entry.
\<close>

fun matchFrom :: "re \<Rightarrow> bool \<Rightarrow> nat \<Rightarrow> nat \<Rightarrow> string \<Rightarrow> captures option" where
  "matchFrom r ignoreCase 0 i rest =
     (case matches (Group 0 r) ignoreCase (i, rest, []) of
        [] \<Rightarrow> None
      | (_, _, caps) # _ \<Rightarrow> Some caps)"
| "matchFrom r ignoreCase (Suc n) i rest =
     (case matches (Group 0 r) ignoreCase (i, rest, []) of
        [] \<Rightarrow> matchFrom r ignoreCase n (i + 1) (tl rest)
      | (_, _, caps) # _ \<Rightarrow> Some caps)"

definition regexMatch :: "re \<Rightarrow> bool \<Rightarrow> string \<Rightarrow> captures option" where
  "regexMatch r ignoreCase str = matchFrom r ignoreCase (length str) 0 str"

definition regexTest :: "re \<Rightarrow> bool \<Rightarrow> string \<Rightarrow> bool" where
  "regexTest r ignoreCase str = (regexMatch r ignoreCase str \<noteq> None)"

subsection \<open>String helpers\<close>

definition trim :: "string \<Rightarrow> string" where
  "trim str = rev (dropWhile isSpaceChar (rev (dropWhile isSpaceChar str)))"

definition toLowerCase :: "string \<Rightarrow> string" where
  "toLowerCase str = map toLowerChar str"

text \<open>\<open>parseInt(digits, 10)\<close> and unary \<open>+\<close> on a string of decimal digits.\<close>

definition parseDigits :: "string \<Rightarrow> int" where
  "parseDigits str = foldl (\<lambda>n c. 10 * n + (int (charCode c) - 48)) 0 str"

text \<open>The same with an optional leading minus sign.\<close>

definition parseSigned :: "string \<Rightarrow> int" where
  "parseSigned str =
     (case str of
        [] \<Rightarrow> 0
      | c # cs \<Rightarrow> if c = CHR ''-'' then - parseDigits cs else parseDigits str)"

text \<open>
  \<open>splitTopLevel\<close>: splitting at the separator outside parentheses. The loop state is
  the pieces so far, the nesting level and the current piece.
\<close>

definition splitStep :: "char \<Rightarrow> string list \<times> int \<times> string \<Rightarrow> char \<Rightarrow> string list \<times> int \<times> string" where
  "splitStep sep acc ch =
     (case acc of
        (out, level, buf) \<Rightarrow>
          (let level1 = (if ch = CHR ''('' then level + 1
                         else if ch = CHR '')'' then max 0 (level - 1)
                         else level)
           in if ch = sep \<and> level1 = 0 then (out @ [buf], level1, [])
              else (out, level1, buf @ [ch])))"

definition splitTopLevel :: "string \<Rightarrow> char \<Rightarrow> string list" where
  "splitTopLevel str sep =
     (case foldl (splitStep sep) ([], 0, []) str of
        (out, level, buf) \<Rightarrow> if buf \<noteq> [] then out @ [buf] else out)"

subsection \<open>Weapons (parseWeapons)\<close>

text \<open>\<open>/\w+\s*\(.*\)/\<close>\<close>

definition weaponFilterRegex :: re where
  "weaponFilterRegex =
     cats [Plus True (Atom Word), Star True (Atom Space), Atom (Lit CHR ''(''),
           Star True (Atom Dot), Atom (Lit CHR '')'')]"

text \<open>\<open>/^(?:(\d+)x\s*)?([^(]+?)\s*\((.+)\)$/\<close>\<close>

definition weaponSpecRegex :: re where
  "weaponSpecRegex =
     cats [Bol,
           Opt (cats [Group 1 (Plus True (Atom Digit)), Atom (Lit CHR ''x''),
                      Star True (Atom Space)]),
           Group 2 (Plus False (Atom (NotSet [Lit CHR ''('']))),
           Star True (Atom Space), Atom (Lit CHR ''(''),
           Group 3 (Plus True (Atom Dot)), Atom (Lit CHR '')''), Eol]"

text \<open>\<open>/^(\d+)"$/\<close>\<close>

definition rangeRegex :: re where
  "rangeRegex = cats [Bol, Group 1 (Plus True (Atom Digit)), Atom (Lit (CHR 0x22)), Eol]"

text \<open>\<open>/^[Aa]?(\d+)$/i\<close>\<close>

definition attacksRegex :: re where
  "attacksRegex =
     cats [Bol, Opt (Atom (Set [Lit CHR ''A'', Lit CHR ''a''])),
           Group 1 (Plus True (Atom Digit)), Eol]"

text \<open>\<open>/^AP\((-?\d+)\)$/i\<close>\<close>

definition apRegex :: re where
  "apRegex =
     cats [Bol, lits ''AP('',
           Group 1 (Cat (Opt (Atom (Lit CHR ''-''))) (Plus True (Atom Digit))),
           Atom (Lit CHR '')''), Eol]"

text \<open>\<open>/^([a-zA-Z\s-]+)(?:\((\d+)\))?$/\<close>\<close>

definition weaponRuleRegex :: re where
  "weaponRuleRegex =
     cats [Bol,
           Group 1 (Plus True (Atom (Set [Rng CHR ''a'' CHR ''z'', Rng CHR ''A'' CHR ''Z'',
                                          Space, Lit CHR ''-'']))),
           Opt (cats [Atom (Lit CHR ''(''), Group 2 (Plus True (Atom Digit)),
                      Atom (Lit CHR '')'')]),
           Eol]"

text \<open>The stats of a weapon while its parts are read: range, attacks, AP and flags.\<close>

definition weaponPart :: "int \<times> int \<times> int \<times> jsobj \<Rightarrow> string \<Rightarrow> int \<times> int \<times> int \<times> jsobj" where
  "weaponPart acc p =
     (case acc of
        (rng0, attacks0, ap0, flags) \<Rightarrow>
          (case regexMatch rangeRegex False p of
             Some m \<Rightarrow> (parseDigits (the (map_of m 1)), attacks0, ap0, flags)
           | None \<Rightarrow>
               (case regexMatch attacksRegex True p of
                  Some m \<Rightarrow> (rng0, parseDigits (the (map_of m 1)), ap0, flags)
                | None \<Rightarrow>
                    (case regexMatch apRegex True p of
                       Some m \<Rightarrow> (rng0, attacks0, parseSigned (the (map_of m 1)), flags)
                     | None \<Rightarrow>
                         (case regexMatch weaponRuleRegex False p of
                            Some ruleMatch \<Rightarrow>
                              (rng0, attacks0, ap0,
                               AList.update (toLowerCase (trim (the (map_of ruleMatch 1))))
                                 (case map_of ruleMatch 2 of
                                    Some digits \<Rightarrow> JNum (parseDigits digits)
                                  | None \<Rightarrow> JBool True)
                                 flags)
                          | None \<Rightarrow> acc)))))"

definition parseWeaponSpec :: "string \<Rightarrow> Weapon option" where
  "parseWeaponSpec spec =
     (case regexMatch weaponSpecRegex False spec of
        None \<Rightarrow> None
      | Some m \<Rightarrow>
          (let amount0 = (case map_of m 1 of
                            Some amountStr \<Rightarrow> parseDigits amountStr
                          | None \<Rightarrow> 1);
               parts = map trim (splitTopLevel (the (map_of m 3)) CHR '','')
           in case foldl weaponPart (0, 1, 0, []) parts of
                (rng0, attacks0, ap0, flags) \<Rightarrow>
                  Some \<lparr>amount = amount0, w_name = trim (the (map_of m 2)), w_range = rng0,
                        attacks = attacks0, ap = ap0, w_special = flags\<rparr>))"

definition parseWeapons :: "string \<Rightarrow> Weapon list" where
  "parseWeapons equipLine =
     (if trim equipLine = [] then []
      else List.map_filter parseWeaponSpec
             (filter (regexTest weaponFilterRegex False)
                     (map trim (splitTopLevel equipLine CHR '',''))))"

subsection \<open>Special rules and keywords (parseRule, parseSpecialsAndKeywords)\<close>

datatype ruleKind = RBoolean string | RNumeric string | RFurious | RBattleDrills

text \<open>The dictionary of special rules, in the order of its entries.\<close>

definition SPECIAL_RULE_DEFINITIONS :: "(string \<times> ruleKind) list" where
  "SPECIAL_RULE_DEFINITIONS =
     [(''Hero'', RBoolean ''hero''),
      (''Relentless'', RBoolean ''relentless''),
      (''Medical Training'', RBoolean ''medicalTraining''),
      (''Shield Wall'', RBoolean ''shieldWall''),
      (''Combat Shield'', RBoolean ''shieldWall''),
      (''Good Shot'', RBoolean ''goodShot''),
      (''Fast'', RBoolean ''fast''),
      (''Robot'', RBoolean ''robot''),
      (''Scout'', RBoolean ''scout''),
      (''Strider'', RBoolean ''strider''),
      (''Fearless'', RBoolean ''fearless''),
      (''Self-Repair'', RBoolean ''selfRepair''),
      (''Ambush'', RBoolean ''ambush''),
      (''Company Standard'', RBoolean ''companyStandard''),
      (''Take Aim'', RBoolean ''takeAim''),
      (''Hold the Line'', RBoolean ''holdTheLine''),
      (''Stealth'', RBoolean ''stealth''),
      (''Flying'', RBoolean ''flying''),
      (''Precision Shots'', RBoolean ''precisionShots''),
      (''Tough'', RNumeric ''tough''),
      (''Deadly'', RNumeric ''deadly''),
      (''Fear'', RNumeric ''fear''),
      (''Impact'', RNumeric ''impact''),
      (''Caster'', RNumeric ''caster''),
      (''Transport'', RNumeric ''transport''),
      (''Furious'', RFurious),
      (''Battle Drills'', RBattleDrills)]"

text \<open>\<open>new RegExp(`^${ruleName}(?:\\([+]?(\\d+)\\))?$`, "i")\<close>\<close>

definition ruleRegex :: "string \<Rightarrow> re" where
  "ruleRegex ruleName =
     cats [Bol, lits ruleName,
           Opt (cats [Atom (Lit CHR ''(''), Opt (Atom (Set [Lit CHR ''+''])),
                      Group 1 (Plus True (Atom Digit)), Atom (Lit CHR '')'')]),
           Eol]"

definition applyRule :: "ruleKind \<Rightarrow> captures \<Rightarrow> jsobj \<Rightarrow> jsobj" where
  "applyRule kind m spec =
     (case kind of
        RBoolean key \<Rightarrow> AList.update key (JBool True) spec
      | RNumeric key \<Rightarrow>
          AList.update key
            (case map_of m 1 of Some digits \<Rightarrow> JNum (parseDigits digits) | None \<Rightarrow> JBool True)
            spec
      | RFurious \<Rightarrow>
          AList.update ''furiousOriginal'' (JBool True)
            (AList.update ''furious'' (JBool True) spec)
      | RBattleDrills \<Rightarrow>
          (let spec1 = AList.update ''battleDrills'' (JBool True) spec
           in if \<not> truthy (flag spec1 ''furious'')
              then AList.update ''furiousOriginal'' (JBool False)
                     (AList.update ''furious'' (JBool True) spec1)
              else spec1))"

text \<open>The loop of \<open>parseRule\<close> over the dictionary: whether a rule matched, and the flags.\<close>

fun parseRuleIn :: "(string \<times> ruleKind) list \<Rightarrow> string \<Rightarrow> jsobj \<Rightarrow> bool \<times> jsobj" where
  "parseRuleIn [] ruleString spec = (False, spec)"
| "parseRuleIn ((ruleName, kind) # defs) ruleString spec =
     (case regexMatch (ruleRegex ruleName) True ruleString of
        Some m \<Rightarrow> (True, applyRule kind m spec)
      | None \<Rightarrow> parseRuleIn defs ruleString spec)"

definition parseRule :: "string \<Rightarrow> jsobj \<Rightarrow> bool \<times> jsobj" where
  "parseRule ruleString spec = parseRuleIn SPECIAL_RULE_DEFINITIONS ruleString spec"

text \<open>\<open>/.*\((.+)\)/\<close>\<close>

definition embeddedRegex :: re where
  "embeddedRegex =
     cats [Star True (Atom Dot), Atom (Lit CHR ''(''), Group 1 (Plus True (Atom Dot)),
           Atom (Lit CHR '')'')]"

definition specItem :: "jsobj \<times> string list \<Rightarrow> string \<Rightarrow> jsobj \<times> string list" where
  "specItem acc item0 =
     (case acc of
        (spec, kws) \<Rightarrow>
          (let item = trim item0
           in case parseRule item spec of
                (True, spec1) \<Rightarrow> (spec1, kws)
              | (False, _) \<Rightarrow>
                  (case (case regexMatch embeddedRegex False item of
                           Some embeddedMatch \<Rightarrow>
                             parseRule (trim (the (map_of embeddedMatch 1))) spec
                         | None \<Rightarrow> (False, spec)) of
                     (True, spec1) \<Rightarrow> (spec1, kws)
                   | (False, _) \<Rightarrow>
                       if CHR ''('' \<notin> set item \<and> CHR '')'' \<notin> set item
                       then (spec, kws @ [item])
                       else (spec, kws))))"

definition parseSpecialsAndKeywords :: "string list \<Rightarrow> jsobj \<times> string list" where
  "parseSpecialsAndKeywords specItems = foldl specItem ([], []) specItems"

subsection \<open>Unit headers (parseUnit)\<close>

text \<open>
  \<open>/^(.+?)\s*\[(\d+)\]\s*Q(\d+)\+\s*D(\d+)\+\s*\|\s*(\d+)pts\s*(?:\|\s*(.*))?$/i\<close>
\<close>

definition unitRegex :: re where
  "unitRegex =
     cats [Bol, Group 1 (Plus False (Atom Dot)), Star True (Atom Space),
           Atom (Lit CHR ''[''), Group 2 (Plus True (Atom Digit)), Atom (Lit CHR '']''),
           Star True (Atom Space),
           Atom (Lit CHR ''Q''), Group 3 (Plus True (Atom Digit)), Atom (Lit CHR ''+''),
           Star True (Atom Space),
           Atom (Lit CHR ''D''), Group 4 (Plus True (Atom Digit)), Atom (Lit CHR ''+''),
           Star True (Atom Space), Atom (Lit CHR ''|''), Star True (Atom Space),
           Group 5 (Plus True (Atom Digit)), lits ''pts'', Star True (Atom Space),
           Opt (cats [Atom (Lit CHR ''|''), Star True (Atom Space),
                      Group 6 (Star True (Atom Dot))]),
           Eol]"

definition parseUnit :: "string \<Rightarrow> string \<Rightarrow> SubUnit option" where
  "parseUnit headerLine equipLine =
     (case regexMatch unitRegex True headerLine of
        None \<Rightarrow> None
      | Some m \<Rightarrow>
          (let specText = (case map_of m 6 of Some t \<Rightarrow> t | None \<Rightarrow> []);
               specItems = (if specText \<noteq> []
                            then map trim (splitTopLevel specText CHR '','') else [])
           in case parseSpecialsAndKeywords specItems of
                (spec, kws) \<Rightarrow>
                  Some \<lparr>su_name = trim (the (map_of m 1)),
                        models = parseDigits (the (map_of m 2)),
                        quality = parseDigits (the (map_of m 3)),
                        defense = parseDigits (the (map_of m 4)),
                        points = parseDigits (the (map_of m 5)),
                        special = spec,
                        weapons = parseWeapons equipLine,
                        su_keywords = kws\<rparr>))"

section \<open>Inputs used by the closed instances\<close>

definition rifleman :: SubUnit where
  "rifleman = \<lparr>su_name = ''Rifleman'', models = 5, quality = 4, defense = 4, points = 50,
                 special = [], weapons = [], su_keywords = []\<rparr>"





definition sword :: Weapon where
  "sword = \<lparr>amount = 1, w_name = ''Sword'', w_range = 0, attacks = 3, ap = 1,
              w_special = []\<rparr>"

definition captain :: SubUnit where
  "captain = \<lparr>su_name = ''Captain'', models = 1, quality = 3, defense = 3, points = 60,
                special = [(''hero'', JBool True), (''tough'', JNum 3)], weapons = [sword],
                su_keywords = []\<rparr>"

definition squadGroup :: UnitGroup where
  "squadGroup = \<lparr>g_name = ''Captain + Rifleman'', subUnits = [captain, rifleman]\<rparr>"

definition squad :: UnitCluster where
  "squad = \<lparr>c_id = ''attackers-Captain_+_Rifleman-0'', c_name = ''Captain + Rifleman'',
              c_side = Attackers, c_type = ''melee'', bestRangeIn = 0,
              cxIn = 10, cyIn = 10, originXIn = 8.11, originYIn = 8.74,
              wIn = 3.78, hIn = 2.52,
              c_models = gridModels ''attackers-Captain_+_Rifleman-0'' 8.11 8.74 3 6,
              unitGroupData = squadGroup, activated = False, shaken = False,
              totalModels = 6, currentModels = 6, hasFoughtInMeleeThisRound = False,
              subUnitStates =
                [\<lparr>originalSubUnitData = captain,
                  s_id = ''attackers-Captain_+_Rifleman-0-subunit-0'',
                  currentModelsInSubUnit = 1, woundsOnCurrentModelInSubUnit = 0,
                  woundsPerModel = 3, effectiveWeapons = [sword], isHeroSubUnit = True\<rparr>,
                 \<lparr>originalSubUnitData = rifleman,
                  s_id = ''attackers-Captain_+_Rifleman-0-subunit-1'',
                  currentModelsInSubUnit = 5, woundsOnCurrentModelInSubUnit = 0,
                  woundsPerModel = 1, effectiveWeapons = [], isHeroSubUnit = False\<rparr>],
              lastPerformedAction = None, isInCover = False\<rparr>"








text \<open>
  The header line and the equipment line of the parser example; the equipment line is
  \<open>2x Rifle(24", A2, AP(1))\<close>, with the double quote written as its character code.
\<close>

definition orcHeader :: string where
  "orcHeader = ''Orc Boyz [10] Q4+ D5+ | 90pts | Fast, Tough(3)''"

definition orcEquipment :: string where
  "orcEquipment = ''2x Rifle(24'' @ [CHR 0x22] @ '', A2, AP(1))''"

text \<open>A single rifleman standing at a point, already activated this round.\<close>

definition sentry :: "string \<Rightarrow> side \<Rightarrow> real \<Rightarrow> real \<Rightarrow> UnitCluster" where
  "sentry cid s x y =
     \<lparr>c_id = cid, c_name = ''Rifleman'', c_side = s, c_type = ''shooting'', bestRangeIn = 24,
      cxIn = x, cyIn = y, originXIn = x - 0.63, originYIn = y - 0.63,
      wIn = 1.26, hIn = 1.26,
      c_models = [\<lparr>m_x = x, m_y = y, m_id = cid @ ''-model-0''\<rparr>],
      unitGroupData = \<lparr>g_name = ''Rifleman'', subUnits = [rifleman\<lparr>models := 1\<rparr>]\<rparr>,
      activated = True, shaken = False, totalModels = 1, currentModels = 1,
      hasFoughtInMeleeThisRound = False,
      subUnitStates =
        [\<lparr>originalSubUnitData = rifleman\<lparr>models := 1\<rparr>, s_id = cid @ ''-subunit-0'',
          currentModelsInSubUnit = 1, woundsOnCurrentModelInSubUnit = 0,
          woundsPerModel = 1, effectiveWeapons = [], isHeroSubUnit = False\<rparr>],
      lastPerformedAction = None, isInCover = False\<rparr>"

text \<open>
  An objective at (10, 10) held by the attackers, with an attacker on it and a defender
  one inch away; both units have been activated.
\<close>

definition contestedState :: GameState where
  "contestedState =
     \<lparr>clusters = (\<lambda>_. sentry ''attackers-Rifleman-1'' Attackers 10 10)
                    (1 := sentry ''defenders-Rifleman-2'' Defenders 11 10),
      attackers = [0], defenders = [1],
      objectives = [\<lparr>o_x = 10, o_y = 10, controller = Some Attackers\<rparr>],
      currentTurn = Attackers, currentRound = 1,
      playerWhoFinishedLastRoundFirst = None, playerWhoStartedCurrentRound = Attackers,
      currentActiveUnit = None, rng = sconst 1\<rparr>"

text \<open>The same battlefield with the defender shaken.\<close>

definition shakenDefenderState :: GameState where
  "shakenDefenderState = updateCluster 1 (\<lambda>c. c\<lparr>shaken := True\<rparr>) contestedState"

section \<open>Properties of the attack sequence\<close>


















section \<open>Properties of wound application\<close>

lemma allocation_bound: "i \<in> set (allocation states) \<Longrightarrow> i < length states"
  by (auto simp: allocation_def)

lemma woundSubUnit_count:
  "currentModelsInSubUnit (fst (woundSubUnit packet sus))
     = currentModelsInSubUnit sus - (if snd (woundSubUnit packet sus) then 1 else 0)"
  by (simp add: woundSubUnit_def Let_def)

lemma sum_counts_update:
  "i < length states \<Longrightarrow>
   sum_list (map currentModelsInSubUnit (states[i := sus]))
     = sum_list (map currentModelsInSubUnit states)
       - currentModelsInSubUnit (states ! i) + currentModelsInSubUnit sus"
proof (induction states arbitrary: i)
  case Nil
  then show ?case by simp
next
  case (Cons s states)
  then show ?case by (cases i) simp_all
qed

lemma applyPacket_preserves:
  assumes "\<forall>i \<in> set alloc. i < length states"
    and "\<forall>s \<in> set states. 0 \<le> currentModelsInSubUnit s"
    and "applyPacket packet alloc (states, current, killed) = (states', current', killed')"
  shows "length states' = length states
         \<and> (\<forall>s \<in> set states'. 0 \<le> currentModelsInSubUnit s)
         \<and> sum_list (map currentModelsInSubUnit states') - current'
             = sum_list (map currentModelsInSubUnit states) - current"
  using assms
proof (induction alloc)
  case Nil
  then show ?case by simp
next
  case (Cons i rest)
  show ?case
  proof (cases "currentModelsInSubUnit (states ! i) \<le> 0")
    case True
    with Cons show ?thesis by simp
  next
    case False
    from Cons.prems(1) have i: "i < length states" by simp
    obtain sus k where w: "woundSubUnit packet (states ! i) = (sus, k)"
      by (cases "woundSubUnit packet (states ! i)")
    from woundSubUnit_count [of packet "states ! i"] w
    have c: "currentModelsInSubUnit sus
               = currentModelsInSubUnit (states ! i) - (if k then 1 else 0)" by simp
    from False w Cons.prems(3)
    have r: "states' = states[i := sus]" "current' = (if k then current - 1 else current)"
      by simp_all
    have nonneg: "0 \<le> currentModelsInSubUnit sus" using c False by (simp split: if_splits)
    have "\<forall>s \<in> set (states[i := sus]). 0 \<le> currentModelsInSubUnit s"
      using Cons.prems(2) nonneg by (auto dest!: set_update_subset_insert [THEN subsetD])
    then show ?thesis using r c i by (simp add: sum_counts_update)
  qed
qed


lemma foldl_applyPacket_preserves:
  assumes "\<forall>i \<in> set alloc. i < length states"
    and "\<forall>s \<in> set states. 0 \<le> currentModelsInSubUnit s"
    and "foldl (\<lambda>acc packet. applyPacket packet alloc acc) (states, current, killed) ps
           = (states', current', killed')"
  shows "length states' = length states
         \<and> (\<forall>s \<in> set states'. 0 \<le> currentModelsInSubUnit s)
         \<and> sum_list (map currentModelsInSubUnit states') - current'
             = sum_list (map currentModelsInSubUnit states) - current"
  using assms
proof (induction ps arbitrary: states current killed)
  case Nil
  then show ?case by simp
next
  case (Cons p ps)
  obtain s1 c1 k1 where step: "applyPacket p alloc (states, current, killed) = (s1, c1, k1)"
    by (cases "applyPacket p alloc (states, current, killed)")
  from applyPacket_preserves [OF Cons.prems(1) Cons.prems(2) step]
  have a: "length s1 = length states"
    and b: "\<forall>s \<in> set s1. 0 \<le> currentModelsInSubUnit s"
    and c: "sum_list (map currentModelsInSubUnit s1) - c1
              = sum_list (map currentModelsInSubUnit states) - current"
    by simp_all
  from Cons.prems(1) a have bound: "\<forall>i \<in> set alloc. i < length s1" by simp
  from Cons.prems(3) step
  have rest: "foldl (\<lambda>acc packet. applyPacket packet alloc acc) (s1, c1, k1) ps
                = (states', current', killed')" by simp
  from Cons.IH [OF bound b rest] a c show ?case by simp
qed

lemma sum_list_nonneg_counts:
  "\<forall>s \<in> set states. 0 \<le> currentModelsInSubUnit s
   \<Longrightarrow> 0 \<le> sum_list (map currentModelsInSubUnit states)"
  by (induction states) simp_all

lemma updateClusterCircles_counts:
  "subUnitStates (updateClusterCircles cluster) = subUnitStates cluster
   \<and> currentModels (updateClusterCircles cluster) = currentModels cluster"
  by (simp add: updateClusterCircles_def Let_def)

lemma applyPackets_invariant:
  assumes "modelCountInvariant cluster"
    and "list_all (\<lambda>s. 0 \<le> currentModelsInSubUnit s) (subUnitStates cluster)"
  shows "modelCountInvariant (fst (applyPackets cluster ps))
         \<and> list_all (\<lambda>s. 0 \<le> currentModelsInSubUnit s)
               (subUnitStates (fst (applyPackets cluster ps)))"
proof -
  let ?alloc = "allocation (subUnitStates cluster)"
  obtain states current killed where
    run: "foldl (\<lambda>acc packet. applyPacket packet ?alloc acc)
            (subUnitStates cluster, currentModels cluster, 0) ps = (states, current, killed)"
    by (cases "foldl (\<lambda>acc packet. applyPacket packet ?alloc acc)
                 (subUnitStates cluster, currentModels cluster, 0) ps")
  have bound: "\<forall>i \<in> set ?alloc. i < length (subUnitStates cluster)"
    by (simp add: allocation_bound)
  from assms(2) have nonneg: "\<forall>s \<in> set (subUnitStates cluster). 0 \<le> currentModelsInSubUnit s"
    by (simp add: list_all_iff)
  from foldl_applyPacket_preserves [OF bound nonneg run] assms(1)
  have nonneg': "\<forall>s \<in> set states. 0 \<le> currentModelsInSubUnit s"
    and eq: "sum_list (map currentModelsInSubUnit states) = current"
    by (simp_all add: modelCountInvariant_def)
  from nonneg' eq have "0 \<le> current" using sum_list_nonneg_counts by blast
  with run eq nonneg' show ?thesis
    by (simp add: applyPackets_def Let_def modelCountInvariant_def
          updateClusterCircles_counts list_all_iff)
qed

text \<open>
  C1. If a cluster's \<open>currentModels\<close> equals the sum of \<open>currentModelsInSubUnit\<close>
  over its sub-unit states before \<open>applyWoundsToCluster\<close>, it does after, for every
  list of wound packets (the call returns for every list) and for a packet count as well.
  Model counts are counts: no sub-unit state has a negative one, before or after.
\<close>

theorem wound_application_keeps_model_count:
  assumes "modelCountInvariant cluster"
    and "list_all (\<lambda>s. 0 \<le> currentModelsInSubUnit s) (subUnitStates cluster)"
  shows "(\<exists>r. applyWoundsToCluster cluster (PacketArray ps) = Inr r)
         \<and> (\<forall>r. applyWoundsToCluster cluster pkts = Inr r
                \<longrightarrow> modelCountInvariant (fst r)
                    \<and> list_all (\<lambda>s. 0 \<le> currentModelsInSubUnit s) (subUnitStates (fst r)))"
proof (intro conjI allI impI)
  show "\<exists>r. applyWoundsToCluster cluster (PacketArray ps) = Inr r"
    by (simp add: applyWoundsToCluster_def)
next
  fix r
  assume "applyWoundsToCluster cluster pkts = Inr r"
  then obtain qs where "r = applyPackets cluster qs"
    by (auto simp: applyWoundsToCluster_def split: sum.splits)
  with applyPackets_invariant [OF assms, of qs]
  show "modelCountInvariant (fst r)" 
    and "list_all (\<lambda>s. 0 \<le> currentModelsInSubUnit s) (subUnitStates (fst r))"
    by simp_all
qed

theorem wound_application_keeps_model_count_witness:
  "modelCountInvariant squad
   \<and> list_all (\<lambda>s. 0 \<le> currentModelsInSubUnit s) (subUnitStates squad)
   \<and> (\<exists>r. applyWoundsToCluster squad (PacketArray [1, 3, 1]) = Inr r
          \<and> modelCountInvariant (fst r)
          \<and> list_all (\<lambda>s. 0 \<le> currentModelsInSubUnit s) (subUnitStates (fst r)))"
proof -
  have h1: "modelCountInvariant squad"
    by (simp add: modelCountInvariant_def squad_def)
  have h2: "list_all (\<lambda>s. 0 \<le> currentModelsInSubUnit s) (subUnitStates squad)"
    by (simp add: squad_def)
  from h1 h2 wound_application_keeps_model_count [OF h1 h2, of "[1, 3, 1]" "PacketArray [1, 3, 1]"]
  show ?thesis by blast
qed

section \<open>Properties of objective control\<close>

lemma hypot_le_iff: "0 \<le> d \<Longrightarrow> hypot a b \<le> d \<longleftrightarrow> a\<^sup>2 + b\<^sup>2 \<le> d\<^sup>2"
  unfolding hypot_def using real_le_lsqrt real_sqrt_le_iff
  by (metis abs_of_nonneg real_sqrt_abs)

text \<open>
  C4, as the specification states it, fails: holding is not sticky against simultaneous
  presence. An objective held by the attackers, with a non-shaken attacker and a
  non-shaken defender both within 3 inches, has no controller after the update.
\<close>

theorem objective_contested_resets_counterexample:
  "\<not> (controller (objectives (updateObjectiveControlAtTurnEnd contestedState) ! 0)
        = Some Attackers)
   \<and> controller (objectives contestedState ! 0) = Some Attackers
   \<and> unitsNear contestedState Attackers (objectives contestedState ! 0)
   \<and> unitsNear contestedState Defenders (objectives contestedState ! 0)
   \<and> controller (objectives (updateObjectiveControlAtTurnEnd contestedState) ! 0) = None"
  by (simp add: updateObjectiveControlAtTurnEnd_def newController_def unitsNear_def
        isUnitNearPoint_def hypot_le_iff sideCache_def contestedState_def sentry_def)

text \<open>
  C4, amended. In the end-of-round update, when non-shaken units of both sides are within
  3 inches of an objective its controller is reset to none, whoever held it; exclusive
  presence of one side gives that side control; with no such unit of either side near,
  the controller stays as it was. Position and number of the objectives do not change.
\<close>

theorem objective_control_update:
  assumes "i < length (objectives st)"
  shows "length (objectives (updateObjectiveControlAtTurnEnd st)) = length (objectives st)
    \<and> o_x (objectives (updateObjectiveControlAtTurnEnd st) ! i) = o_x (objectives st ! i)
    \<and> o_y (objectives (updateObjectiveControlAtTurnEnd st) ! i) = o_y (objectives st ! i)
    \<and> controller (objectives (updateObjectiveControlAtTurnEnd st) ! i)
        = (if unitsNear st Attackers (objectives st ! i)
              \<and> unitsNear st Defenders (objectives st ! i) then None
           else if unitsNear st Attackers (objectives st ! i) then Some Attackers
           else if unitsNear st Defenders (objectives st ! i) then Some Defenders
           else controller (objectives st ! i))"
  using assms by (simp add: updateObjectiveControlAtTurnEnd_def newController_def)

theorem objective_control_update_witness:
  "(0::nat) < length (objectives contestedState)
   \<and> unitsNear contestedState Attackers (objectives contestedState ! 0)
   \<and> unitsNear contestedState Defenders (objectives contestedState ! 0)
   \<and> controller (objectives (updateObjectiveControlAtTurnEnd contestedState) ! 0) = None"
proof -
  have h: "(0::nat) < length (objectives contestedState)"
    by (simp add: contestedState_def)
  have a: "unitsNear contestedState Attackers (objectives contestedState ! 0)"
    and d: "unitsNear contestedState Defenders (objectives contestedState ! 0)"
    by (simp_all add: unitsNear_def isUnitNearPoint_def hypot_le_iff sideCache_def
          contestedState_def sentry_def)
  from h a d objective_control_update [OF h] show ?thesis by simp
qed

section \<open>Properties of the round boundary\<close>

lemma resetRoundFlags_apply:
  "resetRoundFlags roster store u
     = (if u \<in> set roster
        then (store u)\<lparr>activated := False, hasFoughtInMeleeThisRound := False\<rparr>
        else store u)"
  unfolding resetRoundFlags_def
proof (induction roster arbitrary: store)
  case Nil
  show ?case by simp
next
  case (Cons a roster)
  show ?case by (simp add: Cons.IH) (simp add: resetFlagsOf_def)
qed

lemma finalizeAITurn_round_over:
  assumes "list_all (\<lambda>u. activated (clusters st u)) (attackers st)"
    and "list_all (\<lambda>u. activated (clusters st u)) (defenders st)"
  shows "currentRound (finalizeAITurn st) = currentRound st + 1"
    and "attackers (finalizeAITurn st) = attackers st"
    and "defenders (finalizeAITurn st) = defenders st"
    and "clusters (finalizeAITurn st)
           = resetRoundFlags (defenders st) (resetRoundFlags (attackers st) (clusters st))"
  using assms
  by (cases "currentTurn st";
      simp add: finalizeAITurn_def Let_def updateObjectiveControlAtTurnEnd_def
        getAISideCache_def getEnemySideCache_def sideCache_def)+

text \<open>
  C7, as the specification states it, fails for the shaken flag: when the round ends with
  every unit activated and a defender shaken, the round number goes up and the defender
  is still shaken afterwards.
\<close>

theorem round_end_keeps_shaken_counterexample:
  "\<not> list_all (\<lambda>u. \<not> shaken (clusters (finalizeAITurn shakenDefenderState) u))
        (defenders (finalizeAITurn shakenDefenderState))
   \<and> list_all (\<lambda>u. activated (clusters shakenDefenderState u)) (attackers shakenDefenderState)
   \<and> list_all (\<lambda>u. activated (clusters shakenDefenderState u)) (defenders shakenDefenderState)
   \<and> currentRound (finalizeAITurn shakenDefenderState)
       = currentRound shakenDefenderState + 1
   \<and> shaken (clusters (finalizeAITurn shakenDefenderState) 1)"
proof -
  have a: "list_all (\<lambda>u. activated (clusters shakenDefenderState u))
             (attackers shakenDefenderState)"
    and d: "list_all (\<lambda>u. activated (clusters shakenDefenderState u))
             (defenders shakenDefenderState)"
    by (simp_all add: shakenDefenderState_def updateCluster_def contestedState_def sentry_def)
  have s: "shaken (clusters (finalizeAITurn shakenDefenderState) 1)"
    by (simp add: finalizeAITurn_round_over [OF a d] resetRoundFlags_apply)
       (simp add: shakenDefenderState_def updateCluster_def contestedState_def)
  have ds: "defenders (finalizeAITurn shakenDefenderState) = [1]"
    by (simp add: finalizeAITurn_round_over [OF a d])
       (simp add: shakenDefenderState_def updateCluster_def contestedState_def)
  from a d s ds finalizeAITurn_round_over(1) [OF a d] show ?thesis by simp
qed

text \<open>
  C7, amended. When a round ends (every unit of both rosters is activated), the round
  number goes up by one and every cluster of both rosters has its activated flag and its
  melee-fatigue flag reset; the rosters are unchanged, and the shaken flag of every
  cluster is left as it was.
\<close>

theorem round_end_resets_activation_and_fatigue:
  assumes "list_all (\<lambda>u. activated (clusters st u)) (attackers st)"
    and "list_all (\<lambda>u. activated (clusters st u)) (defenders st)"
  shows "currentRound (finalizeAITurn st) = currentRound st + 1
    \<and> attackers (finalizeAITurn st) = attackers st
    \<and> defenders (finalizeAITurn st) = defenders st
    \<and> (\<forall>u \<in> set (attackers st) \<union> set (defenders st).
          \<not> activated (clusters (finalizeAITurn st) u)
          \<and> \<not> hasFoughtInMeleeThisRound (clusters (finalizeAITurn st) u))
    \<and> (\<forall>u. shaken (clusters (finalizeAITurn st) u) = shaken (clusters st u))"
  using finalizeAITurn_round_over [OF assms]
  by (auto simp: resetRoundFlags_apply)

theorem round_end_resets_activation_and_fatigue_witness:
  "list_all (\<lambda>u. activated (clusters shakenDefenderState u)) (attackers shakenDefenderState)
   \<and> list_all (\<lambda>u. activated (clusters shakenDefenderState u)) (defenders shakenDefenderState)
   \<and> currentRound (finalizeAITurn shakenDefenderState)
       = currentRound shakenDefenderState + 1
   \<and> list_all (\<lambda>u. \<not> activated (clusters (finalizeAITurn shakenDefenderState) u)
                    \<and> \<not> hasFoughtInMeleeThisRound
                          (clusters (finalizeAITurn shakenDefenderState) u))
         (attackers shakenDefenderState @ defenders shakenDefenderState)
   \<and> shaken (clusters (finalizeAITurn shakenDefenderState) 1)
       = shaken (clusters shakenDefenderState 1)"
proof -
  have a: "list_all (\<lambda>u. activated (clusters shakenDefenderState u))
             (attackers shakenDefenderState)"
    and d: "list_all (\<lambda>u. activated (clusters shakenDefenderState u))
             (defenders shakenDefenderState)"
    by (simp_all add: shakenDefenderState_def updateCluster_def contestedState_def sentry_def)
  from a d round_end_resets_activation_and_fatigue [OF a d]
  show ?thesis unfolding list_all_iff by auto
qed


section \<open>Properties of the morale test\<close>

lemma applyPacket_current_le:
  "applyPacket packet alloc (states, current, killed) = (states', current', killed')
   \<Longrightarrow> current' \<le> current"
  by (induction alloc) (auto split: if_splits prod.splits)

lemma foldl_applyPacket_current_le:
  "foldl (\<lambda>acc packet. applyPacket packet alloc acc) (states, current, killed) ps
     = (states', current', killed')
   \<Longrightarrow> current' \<le> current"
proof (induction ps arbitrary: states current killed)
  case Nil
  then show ?case by simp
next
  case (Cons p ps)
  obtain s1 c1 k1 where step: "applyPacket p alloc (states, current, killed) = (s1, c1, k1)"
    by (cases "applyPacket p alloc (states, current, killed)")
  from Cons.prems step
  have "foldl (\<lambda>acc packet. applyPacket packet alloc acc) (s1, c1, k1) ps
          = (states', current', killed')" by simp
  from Cons.IH [OF this] applyPacket_current_le [OF step] show ?case by simp
qed

lemma applyPackets_dead_cluster:
  assumes "currentModels cluster \<le> 0"
  shows "currentModels (fst (applyPackets cluster ps)) = 0"
    and "c_id (fst (applyPackets cluster ps)) = c_id cluster"
proof -
  let ?alloc = "allocation (subUnitStates cluster)"
  obtain states current killed where
    run: "foldl (\<lambda>acc packet. applyPacket packet ?alloc acc)
            (subUnitStates cluster, currentModels cluster, 0) ps = (states, current, killed)"
    by (cases "foldl (\<lambda>acc packet. applyPacket packet ?alloc acc)
                 (subUnitStates cluster, currentModels cluster, 0) ps")
  from foldl_applyPacket_current_le [OF run] assms have "current \<le> 0" by simp
  with run show "currentModels (fst (applyPackets cluster ps)) = 0"
    and "c_id (fst (applyPackets cluster ps)) = c_id cluster"
    by (simp_all add: applyPackets_def Let_def)
qed

lemma rollDie_frame:
  "clusters (snd (rollDie st)) = clusters st"
  "attackers (snd (rollDie st)) = attackers st"
  "defenders (snd (rollDie st)) = defenders st"
  by (simp_all add: rollDie_def)

lemma rollHoldTheLine_frame:
  "clusters (snd (rollHoldTheLine n st)) = clusters st
   \<and> attackers (snd (rollHoldTheLine n st)) = attackers st
   \<and> defenders (snd (rollHoldTheLine n st)) = defenders st"
  by (induction n arbitrary: st) (simp_all add: case_prod_unfold rollDie_frame)

lemma removeFromRoster_frame:
  "clusters (removeFromRoster cid st) = clusters st"
  "set (attackers (removeFromRoster cid st)) \<subseteq> set (attackers st)"
  "set (defenders (removeFromRoster cid st)) \<subseteq> set (defenders st)"
  by (auto simp: removeFromRoster_def split: side.splits)

lemma removeFromRoster_removed:
  "\<not> list_ex (\<lambda>c. c_id (clusters st c) = cid)
        (sideCache (removeFromRoster cid st) (sideOfId st cid))"
  by (auto simp: removeFromRoster_def sideCache_def list_ex_iff split: side.splits)

lemma removeFromRoster_attackers:
  "c_id (clusters st u) = cid \<Longrightarrow> u \<notin> set (attackers (removeFromRoster cid st))"
  by (auto simp: removeFromRoster_def sideOfId_def list_ex_iff split: side.splits if_splits)

lemma routCluster_frame:
  "currentModels (clusters (routCluster u st) u) = 0"
  "c_id (clusters (routCluster u st) r) = c_id (clusters st r)"
  "set (attackers (routCluster u st)) \<subseteq> set (attackers st)"
  "set (defenders (routCluster u st)) \<subseteq> set (defenders st)"
  "rng (routCluster u st) = rng st"
  using removeFromRoster_frame [of "c_id (clusters st u)" st]
  by (auto simp: routCluster_def updateCluster_def removeFromRoster_def split: side.splits)

lemma fearlessStep_frame:
  "clusters (snd (fearlessStep u st)) = clusters st"
  "attackers (snd (fearlessStep u st)) = attackers st"
  "defenders (snd (fearlessStep u st)) = defenders st"
  by (simp_all add: fearlessStep_def case_prod_unfold rollDie_frame)

lemma rollHoldTheLine_damage_nonneg: "0 \<le> fst (rollHoldTheLine n st)"
  by (induction n arbitrary: st) (simp_all add: case_prod_unfold)

lemma holdTheLineStep_frame:
  assumes "currentModels (clusters st u) = 0"
  shows "\<exists>f st'. holdTheLineStep u failure st = Inr (f, st')
           \<and> currentModels (clusters st' u) = 0
           \<and> (\<forall>r. c_id (clusters st' r) = c_id (clusters st r))
           \<and> attackers st' = attackers st \<and> defenders st' = defenders st"
proof (cases "failure \<and> unitHasHoldTheLine (clusters st u)")
  case False
  with assms show ?thesis by (auto simp: holdTheLineStep_def)
next
  case True
  let ?n = "nat (woundsToDestroyUnit (clusters st u))"
  let ?d = "fst (rollHoldTheLine ?n st)"
  let ?s = "snd (rollHoldTheLine ?n st)"
  have fr: "clusters ?s = clusters st" "attackers ?s = attackers st"
    "defenders ?s = defenders st"
    using rollHoldTheLine_frame [of ?n st] by simp_all
  show ?thesis
  proof (cases "?d > 0")
    case False
    with True assms fr show ?thesis
      by (auto simp: holdTheLineStep_def case_prod_unfold)
  next
    case d: True
    from assms have dead: "currentModels (clusters st u) \<le> 0" by simp
    from True d fr
    have eq: "holdTheLineStep u failure st
           = Inr (False, updateCluster u
                   (\<lambda>_. fst (applyPackets (clusters st u) (replicate (nat ?d) 1))) ?s)"
      by (simp add: holdTheLineStep_def case_prod_unfold applyWoundsToCluster_def)
    show ?thesis
      unfolding eq using fr applyPackets_dead_cluster [OF dead]
      by (auto simp: updateCluster_def)
  qed
qed

lemma moraleOutcome_frame:
  assumes "currentModels (clusters st u) = 0"
  shows "currentModels (clusters (moraleOutcome u isMeleeTest st) u) = 0"
    and "c_id (clusters (moraleOutcome u isMeleeTest st) r) = c_id (clusters st r)"
    and "set (attackers (moraleOutcome u isMeleeTest st)) \<subseteq> set (attackers st)"
    and "set (defenders (moraleOutcome u isMeleeTest st)) \<subseteq> set (defenders st)"
  using assms routCluster_frame [of u st]
  by (auto simp: moraleOutcome_def updateCluster_def)


text \<open>
  C9. A unit that is already shaken (and has models left, so that a test is taken at all)
  fails the test without a die being rolled for it, and the call returns a state in which
  its \<open>currentModels\<close> is 0 and no cluster with its id is left in the roster the code
  takes for its side: it is not among the attackers, and not among the defenders unless an
  attacker carries the same id. This holds for melee and non-melee tests alike, whatever
  the later Fearless and Hold the Line dice show.
\<close>

theorem shaken_unit_morale_removed:
  assumes "shaken (clusters st u)" and "0 < currentModels (clusters st u)"
  shows "fst (initialMoraleTest u st) \<and> rng (snd (initialMoraleTest u st)) = rng st
         \<and> (\<exists>st'. performMoraleTest u isMeleeTest st = Inr st'
           \<and> currentModels (clusters st' u) = 0
           \<and> \<not> list_ex (\<lambda>c. c_id (clusters st' c) = c_id (clusters st u))
                  (sideCache st' (sideOfId st (c_id (clusters st u))))
           \<and> u \<notin> set (attackers st')
           \<and> (sideOfId st (c_id (clusters st u)) = Defenders \<longrightarrow> u \<notin> set (defenders st')))"
proof -
  let ?cid = "c_id (clusters st u)"
  let ?s1 = "routCluster u st"
  let ?s2 = "snd (fearlessStep u ?s1)"
  let ?f2 = "fst (fearlessStep u ?s1)"
  have init: "initialMoraleTest u st = (True, ?s1)"
    using assms(1) by (simp add: initialMoraleTest_def)
  have s1: "currentModels (clusters ?s1 u) = 0"
    "\<And>r. c_id (clusters ?s1 r) = c_id (clusters st r)"
    by (simp_all add: routCluster_frame)
  have s2: "currentModels (clusters ?s2 u) = 0"
    "\<And>r. c_id (clusters ?s2 r) = c_id (clusters st r)"
    "attackers ?s2 = attackers ?s1" "defenders ?s2 = defenders ?s1"
    using s1 by (simp_all add: fearlessStep_frame)
  from holdTheLineStep_frame [OF s2(1), of ?f2]
  obtain f st3 where h: "holdTheLineStep u ?f2 ?s2 = Inr (f, st3)"
    and s3: "currentModels (clusters st3 u) = 0"
    "\<And>r. c_id (clusters st3 r) = c_id (clusters ?s2 r)"
    "attackers st3 = attackers ?s2" "defenders st3 = defenders ?s2"
    by blast
  let ?st' = "if f then moraleOutcome u isMeleeTest st3 else st3"
  have res: "performMoraleTest u isMeleeTest st = Inr ?st'"
    using assms(2) init h by (simp add: performMoraleTest_def case_prod_unfold)
  have cur: "currentModels (clusters ?st' u) = 0"
    using s3(1) moraleOutcome_frame(1) [OF s3(1)] by simp
  have ids: "\<And>r. c_id (clusters ?st' r) = c_id (clusters st r)"
    using s3(2) s2(2) moraleOutcome_frame(2) [OF s3(1)] by simp
  have att: "set (attackers ?st') \<subseteq> set (attackers ?s1)"
    using s3(3) s2(3) moraleOutcome_frame(3) [OF s3(1), of isMeleeTest] by auto
  have def: "set (defenders ?st') \<subseteq> set (defenders ?s1)"
    using s3(4) s2(4) moraleOutcome_frame(4) [OF s3(1), of isMeleeTest] by auto
  have rosters1: "attackers ?s1 = attackers (removeFromRoster ?cid st)"
    "defenders ?s1 = defenders (removeFromRoster ?cid st)"
    by (simp_all add: routCluster_def updateCluster_def)
  have side: "set (sideCache ?st' (sideOfId st ?cid))
                \<subseteq> set (sideCache (removeFromRoster ?cid st) (sideOfId st ?cid))"
    using att def rosters1 by (cases "sideOfId st ?cid") (simp_all add: sideCache_def)
  have gone: "\<not> list_ex (\<lambda>c. c_id (clusters ?st' c) = ?cid)
                  (sideCache ?st' (sideOfId st ?cid))"
    using removeFromRoster_removed [of st ?cid] side ids
    unfolding list_ex_iff by (metis (no_types, lifting) subsetD)
  have notatt: "u \<notin> set (attackers ?st')"
    using removeFromRoster_attackers [of st u ?cid] att rosters1 by auto
  have notdef: "sideOfId st ?cid = Defenders \<longrightarrow> u \<notin> set (defenders ?st')"
  proof
    assume d: "sideOfId st ?cid = Defenders"
    from gone d ids have "\<forall>c \<in> set (defenders ?st'). c_id (clusters st c) \<noteq> ?cid"
      unfolding list_ex_iff sideCache_def by (metis (mono_tags, lifting) side.simps(4))
    then show "u \<notin> set (defenders ?st')" by blast
  qed
  from init have "fst (initialMoraleTest u st)"
    and "rng (snd (initialMoraleTest u st)) = rng st"
    by (simp_all add: routCluster_frame)
  with res cur gone notatt notdef show ?thesis by blast
qed

theorem shaken_unit_morale_removed_witness:
  "shaken (clusters shakenDefenderState 1)
   \<and> 0 < currentModels (clusters shakenDefenderState 1)
   \<and> sideOfId shakenDefenderState (c_id (clusters shakenDefenderState 1)) = Defenders
   \<and> (\<exists>st'. performMoraleTest 1 False shakenDefenderState = Inr st'
          \<and> currentModels (clusters st' 1) = 0
          \<and> 1 \<notin> set (attackers st') \<and> 1 \<notin> set (defenders st'))"
proof -
  have h1: "shaken (clusters shakenDefenderState 1)"
    and h2: "0 < currentModels (clusters shakenDefenderState 1)"
    and h3: "sideOfId shakenDefenderState (c_id (clusters shakenDefenderState 1)) = Defenders"
    by (simp_all add: shakenDefenderState_def updateCluster_def contestedState_def
          sentry_def sideOfId_def)
  from h1 h2 h3 shaken_unit_morale_removed [OF h1 h2, of False]
  show ?thesis by blast
qed

section \<open>Properties of movement\<close>

lemma movedTogether_shiftModels:
  "cxIn after = cxIn before + moveX \<Longrightarrow> cyIn after = cyIn before + moveY
   \<Longrightarrow> c_models after = shiftModels moveX moveY (c_models before)
   \<Longrightarrow> movedTogether before after"
  by (simp add: movedTogether_def shiftModels_def comp_def)

lemma scoutMove_movedTogether: "movedTogether newCluster (scoutMove newCluster nearestObj)"
  by (rule movedTogether_shiftModels) (simp_all add: scoutMove_def Let_def)

lemma movedTogether_length:
  "movedTogether before after \<Longrightarrow> length (c_models after) = length (c_models before)"
  unfolding movedTogether_def by (rule map_eq_imp_length_eq)

lemma movedTogether_translate:
  assumes "movedTogether original unitCluster"
  shows "movedTogether original (translateCluster moveX moveY unitCluster)"
proof -
  have "map (\<lambda>model. (m_x model, m_y model))
          (shiftModels moveX moveY (c_models unitCluster))
        = map (\<lambda>(x, y). (x + moveX, y + moveY))
            (map (\<lambda>model. (m_x model, m_y model)) (c_models unitCluster))"
    by (simp add: shiftModels_def comp_def)
  also have "\<dots> = map (\<lambda>(x, y). (x + moveX, y + moveY))
            (map (\<lambda>model. (m_x model + (cxIn unitCluster - cxIn original),
                             m_y model + (cyIn unitCluster - cyIn original)))
                 (c_models original))"
    using assms by (simp only: movedTogether_def)
  finally show ?thesis
    by (simp add: movedTogether_def translateCluster_def comp_def algebra_simps)
qed

lemma movedTogether_snap:
  assumes "length (c_models unitCluster) = length (c_models original)"
  shows "movedTogether original (snapToFinal original fx fy unitCluster)"
proof -
  have "map (\<lambda>model. (m_x model, m_y model))
          (map (\<lambda>(model, originalPosition).
                  model\<lparr>m_x := m_x originalPosition + fx, m_y := m_y originalPosition + fy\<rparr>)
               (zip (c_models unitCluster) (c_models original)))
        = map ((\<lambda>p. (m_x p + fx, m_y p + fy)) \<circ> snd)
            (zip (c_models unitCluster) (c_models original))"
    by (simp add: comp_def case_prod_unfold)
  also have "\<dots> = map (\<lambda>p. (m_x p + fx, m_y p + fy)) (c_models original)"
    using assms by (simp only: map_map [symmetric] map_snd_zip)
  finally show ?thesis
    by (simp add: movedTogether_def snapToFinal_def)
qed

lemma animationSteps_movedTogether:
  "movedTogether original unitCluster
   \<Longrightarrow> movedTogether original
         (fst (animationSteps original dX dY distanceToMoveIn frames
                 (unitCluster, movedSoFarIn, lastTimestamp)))"
proof (induction frames arbitrary: unitCluster movedSoFarIn lastTimestamp)
  case Nil
  then show ?case by simp
next
  case (Cons timestamp frames)
  show ?case
    using Cons.prems
    by (simp add: Let_def Cons.IH movedTogether_translate movedTogether_snap
          movedTogether_length)
qed

lemma movedTogether_refl: "movedTogether unitCluster unitCluster"
  by (simp add: movedTogether_def)

lemma animateUnitMovement_movedTogether:
  "movedTogether unitCluster
     (fst (animateUnitMovement unitCluster targetX targetY distanceToMoveIn frames))"
  by (simp add: animateUnitMovement_def Let_def movedTogether_refl
        animationSteps_movedTogether)

lemma resolvePostChargeSeparation_models:
  "c_models (resolvePostChargeSeparation chargerCluster chargedTargetCluster)
     = c_models chargedTargetCluster"
  by (simp add: resolvePostChargeSeparation_def Let_def)

lemma hypot_eq_0_iff: "hypot a b = 0 \<longleftrightarrow> a = 0 \<and> b = 0"
  by (simp add: hypot_def add_nonneg_eq_0_iff)

text \<open>
  C3. The animated move and the scout move translate centre and models by the same vector
  (the two lemmas above). The push-back after a charge does not: whenever the two
  clusters collide and their centres differ, it moves the centre (and the origin) of the
  charged cluster and leaves every model where it was, so centre and model positions are
  no longer consistent.
\<close>

theorem push_back_moves_centre_without_models:
  assumes "areClustersColliding chargerCluster chargedTargetCluster (- 0.1)"
    and "cxIn chargedTargetCluster \<noteq> cxIn chargerCluster
         \<or> cyIn chargedTargetCluster \<noteq> cyIn chargerCluster"
    and "c_models chargedTargetCluster \<noteq> []"
  shows "c_models (resolvePostChargeSeparation chargerCluster chargedTargetCluster)
           = c_models chargedTargetCluster
    \<and> (cxIn (resolvePostChargeSeparation chargerCluster chargedTargetCluster)
           \<noteq> cxIn chargedTargetCluster
       \<or> cyIn (resolvePostChargeSeparation chargerCluster chargedTargetCluster)
           \<noteq> cyIn chargedTargetCluster)
    \<and> \<not> movedTogether chargedTargetCluster
          (resolvePostChargeSeparation chargerCluster chargedTargetCluster)"
proof -
  let ?after = "resolvePostChargeSeparation chargerCluster chargedTargetCluster"
  let ?dx = "cxIn chargedTargetCluster - cxIn chargerCluster"
  let ?dy = "cyIn chargedTargetCluster - cyIn chargerCluster"
  from assms(2) have nz: "hypot ?dx ?dy \<noteq> 0" by (auto simp: hypot_eq_0_iff)
  have cx: "cxIn ?after = cxIn chargedTargetCluster + ?dx / hypot ?dx ?dy"
    and cy: "cyIn ?after = cyIn chargedTargetCluster + ?dy / hypot ?dx ?dy"
    using assms(1) nz by (simp_all add: resolvePostChargeSeparation_def Let_def)
  from assms(2) nz have moved: "cxIn ?after \<noteq> cxIn chargedTargetCluster
      \<or> cyIn ?after \<noteq> cyIn chargedTargetCluster"
    unfolding cx cy by auto
  obtain m ms where ms: "c_models chargedTargetCluster = m # ms"
    using assms(3) by (cases "c_models chargedTargetCluster") auto
  have "\<not> movedTogether chargedTargetCluster ?after"
    using moved ms by (auto simp: movedTogether_def resolvePostChargeSeparation_models)
  with moved show ?thesis by (simp add: resolvePostChargeSeparation_models)
qed

theorem push_back_moves_centre_without_models_witness:
  "areClustersColliding (sentry ''attackers-Rifleman-1'' Attackers 10 10)
     (sentry ''defenders-Rifleman-2'' Defenders 11 10) (- 0.1)
   \<and> cxIn (resolvePostChargeSeparation (sentry ''attackers-Rifleman-1'' Attackers 10 10)
             (sentry ''defenders-Rifleman-2'' Defenders 11 10)) = 12
   \<and> map (\<lambda>model. (m_x model, m_y model))
        (c_models (resolvePostChargeSeparation (sentry ''attackers-Rifleman-1'' Attackers 10 10)
                     (sentry ''defenders-Rifleman-2'' Defenders 11 10))) = [(11, 10)]
   \<and> \<not> movedTogether (sentry ''defenders-Rifleman-2'' Defenders 11 10)
         (resolvePostChargeSeparation (sentry ''attackers-Rifleman-1'' Attackers 10 10)
            (sentry ''defenders-Rifleman-2'' Defenders 11 10))"
proof -
  let ?a = "sentry ''attackers-Rifleman-1'' Attackers 10 10"
  let ?d = "sentry ''defenders-Rifleman-2'' Defenders 11 10"
  have h1: "areClustersColliding ?a ?d (- 0.1)"
    by (simp add: areClustersColliding_def getEffectiveRadius_def hypot_def sentry_def)
  have h2: "cxIn ?d \<noteq> cxIn ?a \<or> cyIn ?d \<noteq> cyIn ?a" by (simp add: sentry_def)
  have h3: "c_models ?d \<noteq> []" by (simp add: sentry_def)
  have cx: "cxIn (resolvePostChargeSeparation ?a ?d) = 12"
    using h1 by (simp add: resolvePostChargeSeparation_def Let_def)
       (simp add: sentry_def hypot_def)
  have ms: "map (\<lambda>model. (m_x model, m_y model))
              (c_models (resolvePostChargeSeparation ?a ?d)) = [(11, 10)]"
    by (simp add: resolvePostChargeSeparation_models) (simp add: sentry_def)
  from h1 cx ms push_back_moves_centre_without_models [OF h1 h2 h3]
  show ?thesis by blast
qed

section \<open>Properties of melee and shooting\<close>































section \<open>Properties of the parser\<close>

text \<open>
  C8. Parsing the header line \<open>Orc Boyz [10] Q4+ D5+ | 90pts | Fast, Tough(3)\<close> with
  the equipment line \<open>2x Rifle(24", A2, AP(1))\<close> yields a sub-unit definition with
  10 models, quality 4, defense 5, 90 points, the special rules fast = true and tough = 3,
  and the single weapon 2x Rifle with range 24, 2 attacks and AP 1.
\<close>

theorem parse_orc_boyz:
  "parseUnit orcHeader orcEquipment
     = Some \<lparr>su_name = ''Orc Boyz'', models = 10, quality = 4, defense = 5, points = 90,
             special = [(''fast'', JBool True), (''tough'', JNum 3)],
             weapons = [\<lparr>amount = 2, w_name = ''Rifle'', w_range = 24, attacks = 2, ap = 1,
                         w_special = []\<rparr>],
             su_keywords = []\<rparr>"
  by code_simp

theorem parse_orc_boyz_witness:
  "\<exists>su w. parseUnit ''Orc Boyz [10] Q4+ D5+ | 90pts | Fast, Tough(3)''
            (''2x Rifle(24'' @ [CHR 0x22] @ '', A2, AP(1))'') = Some su
     \<and> models su = 10 \<and> quality su = 4 \<and> defense su = 5 \<and> points su = 90
     \<and> flag (special su) ''fast'' = Some (JBool True)
     \<and> flag (special su) ''tough'' = Some (JNum 3)
     \<and> weapons su = [w]
     \<and> amount w = 2 \<and> w_name w = ''Rifle'' \<and> w_range w = 24 \<and> attacks w = 2 \<and> ap w = 1"
  using parse_orc_boyz by (simp add: flag_def orcHeader_def orcEquipment_def)

end
